theory Spec2Isabelle
  imports Complex_Main
begin

section \<open>Python list primitives used by \<^verbatim>\<open>predict.py\<close>\<close>

text \<open>
  \<^verbatim>\<open>range(n)\<close> for an unbounded Python integer: the integers \<open>0, ..., n - 1\<close>, and
  the empty list when \<open>n \<le> 0\<close>.
\<close>

definition py_range :: "int \<Rightarrow> int list" where
  "py_range n = [0..n - 1]"

text \<open>
  \<^verbatim>\<open>xs[i]\<close>: a negative index is counted from the end of the list, and an index
  that still falls outside the list raises \<^verbatim>\<open>IndexError\<close>, here \<open>None\<close>.
\<close>

definition py_index :: "'a list \<Rightarrow> int \<Rightarrow> 'a option" where
  "py_index xs i =
     (if 0 \<le> i \<and> i < int (length xs) then Some (xs ! nat i)
      else if i < 0 \<and> 0 \<le> int (length xs) + i then Some (xs ! nat (int (length xs) + i))
      else None)"

text \<open>
  \<^verbatim>\<open>xs[-1] = v\<close>: the assignment to the last position.  Python raises on the empty
  list; the only use in the source is guarded by \<^verbatim>\<open>iterations > 1\<close>, where the list
  has at least two elements (lemma \<open>start_times_nonempty\<close> below).
\<close>

definition set_last :: "'a list \<Rightarrow> 'a \<Rightarrow> 'a list" where
  "set_last xs v = xs[length xs - 1 := v]"

section \<open>The segment planner: \<^verbatim>\<open>distribute_segments_equally\<close>\<close>

text \<open>
  Lines 233 to 265 of \<^verbatim>\<open>src/predict.py\<close>.  Python's \<^verbatim>\<open>//\<close> on integers rounds
  towards minus infinity, as \<open>div\<close> on \<open>int\<close> does.
\<close>

definition distribute_segments_equally :: "int \<Rightarrow> int \<Rightarrow> int \<Rightarrow> int list" where
  "distribute_segments_equally total_duration segments_duration iterations =
     (let available_duration = total_duration - segments_duration;
          spacing = (if iterations > 1 then available_duration div (iterations - 1) else 0);
          start_times = map (\<lambda>i. i * spacing) (py_range iterations)
      in if iterations > 1 then set_last start_times (total_duration - segments_duration)
         else start_times)"

section \<open>The world outside the program\<close>

text \<open>
  Model loading, audio decoding and encoding, and inference belong to external
  libraries.  Each external call is an oracle of the environment, asked with the
  detector's iteration number and the window's start offset; an oracle may answer
  that the library raised, and the exception then leaves the program uncaught
  (the source has no \<^verbatim>\<open>try\<close>).
\<close>

datatype error =
    IndexError
  | LoadModelError
  | DecodeError
  | ExportError
  | LoadAudioError
  | InferenceError

text \<open>
  \<^verbatim>\<open>extract_audio_segment\<close>'s external calls: decoding the source file may raise
  before the temporary file exists, the export may raise once it exists, or both
  may succeed.
\<close>

datatype extract_outcome = Decode_raises | Export_raises | Exported

text \<open>
  The external calls on the extracted slice: \<^verbatim>\<open>whisperx.load_audio\<close> may raise;
  the inference calls (spectrogram, encoder, language head) may raise; or the
  language head answers with a token such as \<^verbatim>\<open><|en|>\<close> and its probability.
  A probability is a Python float; it is only compared with \<^verbatim>\<open>>=\<close>, which on
  floats other than NaN is the order of the reals they denote.
\<close>

datatype detect_outcome = Load_audio_raises | Inference_raises | Detected string real

record externals =
  load_model_ok :: "int \<Rightarrow> bool"
  extraction :: "int \<Rightarrow> int \<Rightarrow> extract_outcome"
  detection :: "int \<Rightarrow> int \<Rightarrow> detect_outcome"

text \<open>A path with its \<^verbatim>\<open>suffix\<close> attribute, such as \<^verbatim>\<open>.mp3\<close>.\<close>

record file_path =
  stem :: string
  suffix :: string

text \<open>
  A temporary file made by \<^verbatim>\<open>tempfile.NamedTemporaryFile(delete=False, suffix=...)\<close>:
  its generated name, its suffix, and the slice \<^verbatim>\<open>audio[from_ms:to_ms]\<close> exported
  into it.
\<close>

record temp_file =
  tmp_name :: nat
  tmp_suffix :: string
  from_ms :: int
  to_ms :: int

text \<open>The lines the program prints, with their interpolated values.\<close>

datatype log_line =
    Segments_line "int list"
  | Iteration_line int string real
  | Detected_line string real int

datatype stage = Align | Diarize

text \<open>
  The state the program acts on: the temporary files present on the filesystem,
  the number of \<^verbatim>\<open>NamedTemporaryFile\<close> calls and of \<^verbatim>\<open>whisperx.load_model\<close> calls
  made so far, the printed lines, and the post-processing stages called so far.
\<close>

record world =
  tmp_files :: "temp_file list"
  tmp_created :: nat
  model_loads :: nat
  stdout :: "log_line list"
  stages_run :: "stage list"

text \<open>\<^verbatim>\<open>NamedTemporaryFile\<close> picks a name no present temporary file has.\<close>

definition fresh_name :: "temp_file list \<Rightarrow> nat" where
  "fresh_name fs = Suc (foldr max (map tmp_name fs) 0)"

text \<open>\<^verbatim>\<open>Path.unlink\<close>: the file is no longer on the filesystem.\<close>

definition unlink :: "temp_file \<Rightarrow> world \<Rightarrow> world" where
  "unlink p w = w\<lparr>tmp_files := removeAll p (tmp_files w)\<rparr>"

definition print_line :: "log_line \<Rightarrow> world \<Rightarrow> world" where
  "print_line l w = w\<lparr>stdout := stdout w @ [l]\<rparr>"

section \<open>The language detector: \<^verbatim>\<open>extract_audio_segment\<close> and \<^verbatim>\<open>detect_language\<close>\<close>

text \<open>
  Lines 216 to 230.  The first argument is what the external calls of this
  extraction do.  The temporary file is created with \<^verbatim>\<open>delete=False\<close>, so it stays
  when the export raises inside the \<^verbatim>\<open>with\<close> block.
\<close>

definition extract_audio_segment ::
  "extract_outcome \<Rightarrow> file_path \<Rightarrow> int \<Rightarrow> int \<Rightarrow> world \<Rightarrow> (error + temp_file) \<times> world" where
  "extract_audio_segment outcome input_file_path start_time_ms duration_ms w =
     (case outcome of
        Decode_raises \<Rightarrow> (Inl DecodeError, w)
      | _ \<Rightarrow>
          (let end_time_ms = start_time_ms + duration_ms;
               file_extension = suffix input_file_path;
               temp_file_path = \<lparr>tmp_name = fresh_name (tmp_files w),
                                 tmp_suffix = file_extension,
                                 from_ms = start_time_ms, to_ms = end_time_ms\<rparr>;
               w' = w\<lparr>tmp_files := temp_file_path # tmp_files w,
                      tmp_created := Suc (tmp_created w)\<rparr>
           in case outcome of
                Export_raises \<Rightarrow> (Inl ExportError, w')
              | _ \<Rightarrow> (Inr temp_file_path, w')))"

text \<open>The result dictionary of \<^verbatim>\<open>detect_language\<close>.\<close>

record detection_result =
  res_language :: string
  res_probability :: real
  res_iterations :: int

text \<open>\<^verbatim>\<open>language_token[2:-2]\<close>: the token without its first two and last two characters.\<close>

definition strip_token :: "string \<Rightarrow> string" where
  "strip_token language_token = drop 2 (take (length language_token - 2) language_token)"

text \<open>
  Lines 177 to 213.  Every activation first calls \<^verbatim>\<open>whisperx.load_model\<close>, then
  reads \<^verbatim>\<open>segments_starts[iteration - 1]\<close>, extracts the 30000 ms slice into a
  temporary file, loads it, unlinks the file, runs the inference, prints the
  iteration's line, and either returns or calls itself with \<^verbatim>\<open>iteration + 1\<close>.
  The options dictionaries are only handed to \<^verbatim>\<open>whisperx.load_model\<close> and are
  left out.
\<close>

function detect_language ::
  "'z externals_scheme \<Rightarrow> file_path \<Rightarrow> int list \<Rightarrow> real \<Rightarrow> int \<Rightarrow> int \<Rightarrow> world
     \<Rightarrow> (error + detection_result) \<times> world" where
  "detect_language env full_audio_file_path segments_starts language_detection_min_prob
       language_detection_max_tries iteration w =
     (let w1 = w\<lparr>model_loads := Suc (model_loads w)\<rparr> in
      if \<not> load_model_ok env iteration then (Inl LoadModelError, w1)
      else
        (case py_index segments_starts (iteration - 1) of
           None \<Rightarrow> (Inl IndexError, w1)
         | Some start_ms \<Rightarrow>
             (case extract_audio_segment (extraction env iteration start_ms)
                     full_audio_file_path start_ms 30000 w1 of
                (Inl e, w2) \<Rightarrow> (Inl e, w2)
              | (Inr audio_segment_file_path, w2) \<Rightarrow>
                  (case detection env iteration start_ms of
                     Load_audio_raises \<Rightarrow> (Inl LoadAudioError, w2)
                   | Inference_raises \<Rightarrow>
                       (Inl InferenceError, unlink audio_segment_file_path w2)
                   | Detected language_token language_probability \<Rightarrow>
                       (let w3 = unlink audio_segment_file_path w2;
                            language = strip_token language_token;
                            w4 = print_line
                                   (Iteration_line iteration language language_probability) w3
                        in if language_probability \<ge> language_detection_min_prob
                              \<or> iteration \<ge> language_detection_max_tries
                           then (Inr \<lparr>res_language = language,
                                      res_probability = language_probability,
                                      res_iterations = iteration\<rparr>, w4)
                           else detect_language env full_audio_file_path segments_starts
                                  language_detection_min_prob language_detection_max_tries
                                  (iteration + 1) w4)))))"
  by pat_completeness auto
termination
  by (relation "measure (\<lambda>(env, f, ss, mn, mx, it, w). nat (mx - it))") auto

declare detect_language.simps [simp del]

section \<open>The orchestrator: \<^verbatim>\<open>predict\<close>\<close>

text \<open>The dictionary \<^verbatim>\<open>model.transcribe\<close> returns, and the program's output.\<close>

record 'seg transcription =
  result_segments :: 'seg
  result_language :: string

record 'seg model_output =
  segments :: 'seg
  detected_language :: string

text \<open>
  The external collaborators of \<^verbatim>\<open>predict\<close>: the decoded length of the audio in
  milliseconds (\<^verbatim>\<open>len(AudioSegment.from_file(...))\<close>), the transcription obtained
  with the model loaded for a language, the keys of \<^verbatim>\<open>DEFAULT_ALIGN_MODELS_TORCH\<close>
  and \<^verbatim>\<open>DEFAULT_ALIGN_MODELS_HF\<close>, and the two post-processing stages.  These
  calls are taken to return.
\<close>

record 'seg pipeline = externals +
  audio_length_ms :: "file_path \<Rightarrow> int"
  transcribe :: "string \<Rightarrow> 'seg transcription"
  align_models_torch :: "string list"
  align_models_hf :: "string list"
  align :: "'seg transcription \<Rightarrow> 'seg transcription"
  diarize :: "'seg transcription \<Rightarrow> 'seg transcription"

definition get_audio_duration :: "'seg pipeline \<Rightarrow> file_path \<Rightarrow> int" where
  "get_audio_duration env file_path = audio_length_ms env file_path"

text \<open>
  Lines 106 to 109: the try count the planner and the detector receive.  Python's
  \<^verbatim>\<open>/\<close> is the division of floats; the quotient by 30000 of an integer below
  \<open>2 ^ 53\<close> is never rounded up to the next integer, so \<^verbatim>\<open>math.floor\<close> of it is the
  floor of the exact quotient.
\<close>

definition clamped_tries :: "int \<Rightarrow> int \<Rightarrow> int \<Rightarrow> int" where
  "clamped_tries language_detection_max_tries audio_duration segments_duration_ms =
     min language_detection_max_tries
       \<lfloor>real_of_int audio_duration / real_of_int segments_duration_ms\<rfloor>"

text \<open>
  Lines 40 to 170.  The arguments are the inputs that steer the control flow; the
  prompt, batch size, temperature, VAD options, credential and speaker bounds only
  reach external calls, and \<^verbatim>\<open>debug\<close> only prints timings.
\<close>

definition predict ::
  "'seg pipeline \<Rightarrow> file_path \<Rightarrow> string option \<Rightarrow> real \<Rightarrow> int \<Rightarrow> bool \<Rightarrow> bool \<Rightarrow> world
     \<Rightarrow> (error + 'seg model_output) \<times> world" where
  "predict env audio_file language language_detection_min_prob language_detection_max_tries
       align_output diarization w =
     (case (case language of
              None \<Rightarrow>
                (let audio_duration = get_audio_duration env audio_file;
                     segments_duration_ms = 30000;
                     max_tries = clamped_tries language_detection_max_tries audio_duration
                                   segments_duration_ms;
                     segments_starts = distribute_segments_equally audio_duration
                                         segments_duration_ms max_tries;
                     w1 = print_line (Segments_line segments_starts) w
                 in case detect_language env audio_file segments_starts
                           language_detection_min_prob max_tries 1 w1 of
                      (Inl e, w2) \<Rightarrow> (Inl e, w2)
                    | (Inr detected_language_details, w2) \<Rightarrow>
                        (Inr (res_language detected_language_details),
                         print_line (Detected_line (res_language detected_language_details)
                                       (res_probability detected_language_details)
                                       (res_iterations detected_language_details)) w2))
            | Some l \<Rightarrow> (Inr l, w)) of
        (Inl e, w3) \<Rightarrow> (Inl e, w3)
      | (Inr resolved_language, w3) \<Rightarrow>
          (let w4 = w3\<lparr>model_loads := Suc (model_loads w3)\<rparr>;
               result = transcribe env resolved_language
           in if result_language result \<in> set (align_models_torch env)
                 \<or> result_language result \<in> set (align_models_hf env)
              then
                if align_output
                then (Inr \<lparr>segments = result_segments (align env result),
                           detected_language = result_language result\<rparr>,
                      w4\<lparr>stages_run := stages_run w4 @ [Align]\<rparr>)
                else if diarization
                then (Inr \<lparr>segments = result_segments (diarize env result),
                           detected_language = result_language result\<rparr>,
                      w4\<lparr>stages_run := stages_run w4 @ [Diarize]\<rparr>)
                else (Inr \<lparr>segments = result_segments result,
                           detected_language = result_language result\<rparr>, w4)
              else (Inr \<lparr>segments = result_segments result,
                         detected_language = result_language result\<rparr>, w4)))"

section \<open>Example environments\<close>

text \<open>
  An environment whose external calls all succeed and whose language head answers
  iteration \<open>k\<close> with the \<open>k\<close>-th entry of a script (and raises past its end), the
  world before anything has run, and an input file.
\<close>

definition scripted :: "detect_outcome list \<Rightarrow> externals" where
  "scripted outcomes =
     \<lparr>load_model_ok = (\<lambda>k. True),
      extraction = (\<lambda>k s. Exported),
      detection = (\<lambda>k s. if 1 \<le> k \<and> k \<le> int (length outcomes)
                            then outcomes ! nat (k - 1) else Inference_raises)\<rparr>"

definition empty_world :: world where
  "empty_world = \<lparr>tmp_files = [], tmp_created = 0, model_loads = 0, stdout = [],
                   stages_run = []\<rparr>"

definition sample_audio :: file_path where
  "sample_audio = \<lparr>stem = ''audio'', suffix = ''.mp3''\<rparr>"

text \<open>
  A pipeline for an audio file of the given length whose external calls all
  succeed: every window is detected as English, the transcription reports the
  language it was given, and the stages append a mark to the segments.
\<close>

definition sample_pipeline :: "int \<Rightarrow> string list pipeline" where
  "sample_pipeline duration_ms =
     \<lparr>load_model_ok = (\<lambda>k. True),
      extraction = (\<lambda>k s. Exported),
      detection = (\<lambda>k s. Detected ''<|en|>'' (9/10)),
      audio_length_ms = (\<lambda>f. duration_ms),
      transcribe = (\<lambda>l. \<lparr>result_segments = [''hello''], result_language = l\<rparr>),
      align_models_torch = [''en'', ''fr''],
      align_models_hf = [''ja''],
      align = (\<lambda>r. r\<lparr>result_segments := result_segments r @ [''aligned'']\<rparr>),
      diarize = (\<lambda>r. r\<lparr>result_segments := result_segments r @ [''speakers'']\<rparr>)\<rparr>"

section \<open>Properties of the segment planner\<close>

lemma length_py_range: "length (py_range n) = nat n"
  by (simp add: py_range_def)

lemma nth_py_range: "k < nat n \<Longrightarrow> py_range n ! k = int k"
  by (simp add: py_range_def)

lemma start_times_nonempty:
  "1 < iterations \<Longrightarrow> map (\<lambda>i. i * spacing) (py_range iterations) \<noteq> []"
  by (simp add: py_range_def)

lemma length_distribute:
  "length (distribute_segments_equally total_duration segments_duration iterations)
     = nat iterations"
  by (simp add: distribute_segments_equally_def Let_def set_last_def length_py_range)

lemma distribute_single:
  "distribute_segments_equally total_duration segments_duration 1 = [0]"
  by (simp add: distribute_segments_equally_def py_range_def)

lemma distribute_nonpositive:
  "iterations \<le> 0 \<Longrightarrow>
     distribute_segments_equally total_duration segments_duration iterations = []"
  by (simp add: distribute_segments_equally_def py_range_def)

lemma nth_distribute:
  assumes "1 < iterations" and "k < nat iterations"
  shows "distribute_segments_equally total_duration segments_duration iterations ! k
           = (if k = nat iterations - 1 then total_duration - segments_duration
              else int k * ((total_duration - segments_duration) div (iterations - 1)))"
  using assms
  by (simp add: distribute_segments_equally_def Let_def set_last_def length_py_range
      nth_py_range nth_list_update)

text \<open>
  Claim C3.  For more than one iteration the planner's output has one offset per
  iteration; the offset at every position \<open>k\<close> before the last is \<open>k\<close> times the
  floor-divided spacing \<open>(total_duration - segments_duration) div (iterations - 1)\<close>,
  and the last offset is overwritten with \<open>total_duration - segments_duration\<close>.
  In particular the plan for 100000 ms of audio, 30000 ms segments and 3 iterations
  is \<open>[0, 35000, 70000]\<close>.
\<close>

theorem planner_spacing_and_forced_end:
  "(\<forall>total_duration segments_duration iterations. 1 < iterations \<longrightarrow>
      (let plan = distribute_segments_equally total_duration segments_duration iterations;
           spacing = (total_duration - segments_duration) div (iterations - 1)
       in plan = set_last (map (\<lambda>i. i * spacing) (py_range iterations))
                   (total_duration - segments_duration)
          \<and> length plan = nat iterations
          \<and> (\<forall>k. int k < iterations - 1 \<longrightarrow> plan ! k = int k * spacing)
          \<and> plan ! (nat iterations - 1) = total_duration - segments_duration))
   \<and> distribute_segments_equally 100000 30000 3 = [0, 35000, 70000]"
proof (intro conjI allI impI)
  fix total_duration segments_duration iterations :: int
  assume it: "1 < iterations"
  have eq: "distribute_segments_equally total_duration segments_duration iterations
      = set_last (map (\<lambda>i. i * ((total_duration - segments_duration) div (iterations - 1)))
          (py_range iterations)) (total_duration - segments_duration)"
    using it by (simp add: distribute_segments_equally_def)
  have early: "distribute_segments_equally total_duration segments_duration iterations ! k
      = int k * ((total_duration - segments_duration) div (iterations - 1))"
    if "int k < iterations - 1" for k
  proof -
    from that it have "k < nat iterations" and "k \<noteq> nat iterations - 1" by linarith+
    then show ?thesis using nth_distribute [OF it] by simp
  qed
  have final: "distribute_segments_equally total_duration segments_duration iterations
      ! (nat iterations - 1) = total_duration - segments_duration"
    using nth_distribute [OF it, of "nat iterations - 1"] it by simp
  show "let plan = distribute_segments_equally total_duration segments_duration iterations;
            spacing = (total_duration - segments_duration) div (iterations - 1)
        in plan = set_last (map (\<lambda>i. i * spacing) (py_range iterations))
                    (total_duration - segments_duration)
           \<and> length plan = nat iterations
           \<and> (\<forall>k. int k < iterations - 1 \<longrightarrow> plan ! k = int k * spacing)
           \<and> plan ! (nat iterations - 1) = total_duration - segments_duration"
    unfolding Let_def using eq early final length_distribute by blast
next
  show "distribute_segments_equally 100000 30000 3 = [0, 35000, 70000]"
    by (simp add: distribute_segments_equally_def py_range_def set_last_def upto.simps)
qed

theorem planner_spacing_and_forced_end_witness:
  "(1::int) < 3
   \<and> length (distribute_segments_equally 100000 30000 3) = 3
   \<and> distribute_segments_equally 100000 30000 3 ! 0 = 0
   \<and> distribute_segments_equally 100000 30000 3 ! 1 = 35000
   \<and> distribute_segments_equally 100000 30000 3 ! 2 = 70000"
proof -
  have h: "(1::int) < 3" by simp
  note inst = planner_spacing_and_forced_end
    [THEN conjunct1, rule_format, of 3 100000 30000, OF h, unfolded Let_def, THEN conjunct2]
  from inst have len: "length (distribute_segments_equally 100000 30000 3) = 3"
    by simp
  from inst have early: "int k < 2 \<Longrightarrow>
      distribute_segments_equally 100000 30000 3 ! k = int k * 35000" for k
    by simp
  from inst have final: "distribute_segments_equally 100000 30000 3 ! 2 = 70000"
    by simp
  from early [of 0] early [of 1] final h len
  show ?thesis by simp
qed

lemma spacing_nonneg:
  "0 \<le> (a::int) \<Longrightarrow> 0 < d \<Longrightarrow> 0 \<le> a div d"
  by (simp add: pos_imp_zdiv_nonneg_iff)

lemma spaced_offset_le:
  assumes "0 \<le> (a::int)" and "0 < d" and "0 \<le> k" and "k \<le> d"
  shows "k * (a div d) \<le> a"
proof -
  have "k * (a div d) \<le> d * (a div d)"
    using assms by (intro mult_right_mono spacing_nonneg) simp_all
  also have "d * (a div d) \<le> a"
    using assms(2) by (metis mult_div_mod_eq le_add_same_cancel1 pos_mod_sign)
  finally show ?thesis .
qed

lemma distribute_offset_bounds:
  assumes "segments_duration \<le> total_duration" and "1 < iterations" and "k < nat iterations"
  shows "0 \<le> distribute_segments_equally total_duration segments_duration iterations ! k
         \<and> distribute_segments_equally total_duration segments_duration iterations ! k
             \<le> total_duration - segments_duration"
proof (cases "k = nat iterations - 1")
  case True
  then show ?thesis using assms by (simp add: nth_distribute)
next
  case False
  have a: "0 \<le> total_duration - segments_duration" using assms(1) by simp
  have d: "0 < iterations - 1" using assms(2) by simp
  have k: "int k \<le> iterations - 1" using assms(3) by linarith
  have "0 \<le> int k * ((total_duration - segments_duration) div (iterations - 1))"
    using spacing_nonneg [OF a d] by simp
  moreover have "int k * ((total_duration - segments_duration) div (iterations - 1))
      \<le> total_duration - segments_duration"
    using spaced_offset_le [OF a d _ k] by simp
  ultimately show ?thesis using False assms by (simp add: nth_distribute)
qed

lemma distribute_offsets_mono:
  assumes "segments_duration \<le> total_duration" and "1 < iterations"
    and "i \<le> j" and "j < nat iterations"
  shows "distribute_segments_equally total_duration segments_duration iterations ! i
         \<le> distribute_segments_equally total_duration segments_duration iterations ! j"
proof (cases "j = nat iterations - 1")
  case True
  have "i < nat iterations" using assms(3,4) by simp
  from distribute_offset_bounds [OF assms(1,2) this]
  show ?thesis using True assms by (simp add: nth_distribute)
next
  case False
  have a: "0 \<le> total_duration - segments_duration" using assms(1) by simp
  have d: "0 < iterations - 1" using assms(2) by simp
  have "int i * ((total_duration - segments_duration) div (iterations - 1))
      \<le> int j * ((total_duration - segments_duration) div (iterations - 1))"
    using spacing_nonneg [OF a d] assms(3) by (intro mult_right_mono) simp_all
  moreover have "i \<noteq> nat iterations - 1" and "i < nat iterations"
    using False assms(3,4) by linarith+
  ultimately show ?thesis using False assms by (simp add: nth_distribute)
qed

text \<open>
  Claim C2.  When the audio is at least one segment long: with one iteration the
  planner returns exactly \<open>[0]\<close>; with more than one iteration the last offset of the
  plan is \<open>total_duration - segments_duration\<close> and every offset of the plan lies
  between 0 and \<open>total_duration - segments_duration\<close>.
\<close>

theorem planner_single_and_end_aligned:
  "segments_duration \<le> total_duration \<Longrightarrow>
     (iterations = 1 \<longrightarrow>
        distribute_segments_equally total_duration segments_duration iterations = [0])
     \<and> (1 < iterations \<longrightarrow>
          last (distribute_segments_equally total_duration segments_duration iterations)
            = total_duration - segments_duration
          \<and> (\<forall>x \<in> set (distribute_segments_equally total_duration segments_duration iterations).
                0 \<le> x \<and> x \<le> total_duration - segments_duration))"
proof (intro conjI impI ballI)
  assume "iterations = 1"
  then show "distribute_segments_equally total_duration segments_duration iterations = [0]"
    by (simp add: distribute_single)
next
  assume it: "1 < iterations"
  let ?plan = "distribute_segments_equally total_duration segments_duration iterations"
  have ne: "?plan \<noteq> []" using it length_distribute [of total_duration segments_duration iterations]
    by auto
  show "last ?plan = total_duration - segments_duration"
    using it ne by (simp add: last_conv_nth length_distribute nth_distribute)
next
  fix x
  assume le: "segments_duration \<le> total_duration" and it: "1 < iterations"
    and "x \<in> set (distribute_segments_equally total_duration segments_duration iterations)"
  then obtain k where "k < nat iterations"
    and "distribute_segments_equally total_duration segments_duration iterations ! k = x"
    by (auto simp: in_set_conv_nth length_distribute)
  with distribute_offset_bounds [OF le it, of k]
  show "0 \<le> x" and "x \<le> total_duration - segments_duration" by simp_all
qed

theorem planner_single_and_end_aligned_witness:
  "(30000::int) \<le> 100000 \<and> (1::int) = 1 \<and> (1::int) < 3
   \<and> distribute_segments_equally 100000 30000 1 = [0]
   \<and> last (distribute_segments_equally 100000 30000 3) = 70000
   \<and> list_all (\<lambda>x. 0 \<le> x \<and> x \<le> 70000) (distribute_segments_equally 100000 30000 3)"
proof -
  have h: "(30000::int) \<le> 100000" by simp
  from planner_single_and_end_aligned [OF h, of 1] planner_single_and_end_aligned [OF h, of 3]
  show ?thesis by (simp add: list_all_iff)
qed

text \<open>
  Claim C5.  When the audio is at least one segment long and at least one iteration
  is requested, the plan has exactly one offset per iteration, no offset is negative,
  and the offsets never decrease.  Equal offsets are an ordinary outcome: with 30001 ms
  of audio and 3 iterations the spacing is \<open>1 div 2 = 0\<close> and the plan is \<open>[0, 0, 1]\<close>.
\<close>

theorem planner_length_nonneg_sorted:
  "(\<forall>total_duration segments_duration iterations.
      segments_duration \<le> total_duration \<and> 1 \<le> iterations \<longrightarrow>
        length (distribute_segments_equally total_duration segments_duration iterations)
          = nat iterations
        \<and> (\<forall>x \<in> set (distribute_segments_equally total_duration segments_duration iterations).
              0 \<le> x)
        \<and> sorted (distribute_segments_equally total_duration segments_duration iterations))
   \<and> distribute_segments_equally 30001 30000 3 = [0, 0, 1]"
proof (intro conjI allI impI ballI)
  fix total_duration segments_duration iterations :: int
  show "length (distribute_segments_equally total_duration segments_duration iterations)
          = nat iterations"
    by (rule length_distribute)
next
  fix total_duration segments_duration iterations x :: int
  assume h: "segments_duration \<le> total_duration \<and> 1 \<le> iterations"
    and x: "x \<in> set (distribute_segments_equally total_duration segments_duration iterations)"
  show "0 \<le> x"
  proof (cases "iterations = 1")
    case True
    with x show ?thesis by (simp add: distribute_single)
  next
    case False
    with h have it: "1 < iterations" and le: "segments_duration \<le> total_duration" by simp_all
    from x obtain k where "k < nat iterations"
      and "distribute_segments_equally total_duration segments_duration iterations ! k = x"
      by (auto simp: in_set_conv_nth length_distribute)
    with distribute_offset_bounds [OF le it, of k] show ?thesis by simp
  qed
next
  fix total_duration segments_duration iterations :: int
  assume h: "segments_duration \<le> total_duration \<and> 1 \<le> iterations"
  show "sorted (distribute_segments_equally total_duration segments_duration iterations)"
  proof (cases "iterations = 1")
    case True
    then show ?thesis by (simp add: distribute_single)
  next
    case False
    with h have it: "1 < iterations" and le: "segments_duration \<le> total_duration" by simp_all
    show ?thesis
      unfolding sorted_iff_nth_mono length_distribute
      using distribute_offsets_mono [OF le it] by blast
  qed
next
  show "distribute_segments_equally 30001 30000 3 = [0, 0, 1]"
    by (simp add: distribute_segments_equally_def py_range_def set_last_def upto.simps)
qed

theorem planner_length_nonneg_sorted_witness:
  "(30000::int) \<le> 30001 \<and> (1::int) \<le> 3
   \<and> length (distribute_segments_equally 30001 30000 3) = 3
   \<and> list_all (\<lambda>x. 0 \<le> x) (distribute_segments_equally 30001 30000 3)
   \<and> sorted (distribute_segments_equally 30001 30000 3)"
proof -
  have h: "(30000::int) \<le> 30001 \<and> (1::int) \<le> 3" by simp
  from planner_length_nonneg_sorted [THEN conjunct1, rule_format, of 30000 30001 3, OF h] h
  show ?thesis by (simp add: list_all_iff)
qed

section \<open>Properties of the language detector\<close>


lemma tmp_name_less_fresh: "p \<in> set fs \<Longrightarrow> tmp_name p < fresh_name fs"
  unfolding fresh_name_def by (induction fs) auto

lemma fresh_file_absent:
  "\<lparr>tmp_name = fresh_name fs, tmp_suffix = sfx, from_ms = a, to_ms = b\<rparr> \<notin> set fs"
  using tmp_name_less_fresh [of "\<lparr>tmp_name = fresh_name fs, tmp_suffix = sfx, from_ms = a, to_ms = b\<rparr>" fs]
  by auto

lemma detect_language_step:
  "detect_language env f starts mn mx i w =
     (if \<not> load_model_ok env i then (Inl LoadModelError, w\<lparr>model_loads := Suc (model_loads w)\<rparr>)
      else case py_index starts (i - 1) of
        None \<Rightarrow> (Inl IndexError, w\<lparr>model_loads := Suc (model_loads w)\<rparr>)
      | Some s \<Rightarrow>
         (case extraction env i s of
            Decode_raises \<Rightarrow> (Inl DecodeError, w\<lparr>model_loads := Suc (model_loads w)\<rparr>)
          | Export_raises \<Rightarrow>
              (Inl ExportError, w\<lparr>model_loads := Suc (model_loads w),
                 tmp_files := \<lparr>tmp_name = fresh_name (tmp_files w), tmp_suffix = suffix f,
                                  from_ms = s, to_ms = s + 30000\<rparr> # tmp_files w, tmp_created := Suc (tmp_created w)\<rparr>)
          | Exported \<Rightarrow>
             (case detection env i s of
                Load_audio_raises \<Rightarrow>
                  (Inl LoadAudioError, w\<lparr>model_loads := Suc (model_loads w),
                     tmp_files := \<lparr>tmp_name = fresh_name (tmp_files w), tmp_suffix = suffix f,
                                  from_ms = s, to_ms = s + 30000\<rparr> # tmp_files w, tmp_created := Suc (tmp_created w)\<rparr>)
              | Inference_raises \<Rightarrow>
                  (Inl InferenceError, w\<lparr>model_loads := Suc (model_loads w),
                     tmp_created := Suc (tmp_created w)\<rparr>)
              | Detected tok p \<Rightarrow>
                  (let w4 = w\<lparr>model_loads := Suc (model_loads w),
                              tmp_created := Suc (tmp_created w),
                              stdout := stdout w @ [Iteration_line i (strip_token tok) p]\<rparr>
                   in if p \<ge> mn \<or> i \<ge> mx
                      then (Inr \<lparr>res_language = strip_token tok, res_probability = p,
                                 res_iterations = i\<rparr>, w4)
                      else detect_language env f starts mn mx (i + 1) w4))))"
  apply (subst detect_language.simps)
  apply (simp add: Let_def extract_audio_segment_def unlink_def print_line_def
      fresh_file_absent
      split: option.splits extract_outcome.splits detect_outcome.splits)
  done


lemma py_index_in_range:
  "1 \<le> i \<Longrightarrow> i \<le> int (length xs) \<Longrightarrow> py_index xs (i - 1) = Some (xs ! nat (i - 1))"
  by (simp add: py_index_def)

lemma detect_language_run:
  fixes tok :: "int \<Rightarrow> string" and prob :: "int \<Rightarrow> real"
  assumes "1 \<le> i" and "i \<le> mx" and "mx \<le> int (length starts)"
    and "\<And>k. i \<le> k \<Longrightarrow> k \<le> mx \<Longrightarrow>
           load_model_ok env k \<and> extraction env k (starts ! nat (k - 1)) = Exported
           \<and> detection env k (starts ! nat (k - 1)) = Detected (tok k) (prob k)"
  shows "\<exists>k. i \<le> k \<and> k \<le> mx \<and> (mn \<le> prob k \<or> mx \<le> k)
           \<and> (\<forall>j. i \<le> j \<and> j < k \<longrightarrow> prob j < mn)
           \<and> detect_language env f starts mn mx i w =
               (Inr \<lparr>res_language = strip_token (tok k), res_probability = prob k,
                     res_iterations = k\<rparr>,
                w\<lparr>model_loads := model_loads w + nat (k - i + 1),
                  tmp_created := tmp_created w + nat (k - i + 1),
                  stdout := stdout w
                    @ map (\<lambda>j. Iteration_line j (strip_token (tok j)) (prob j)) [i..k]\<rparr>)"
  using assms
proof (induction "nat (mx - i)" arbitrary: i w rule: less_induct)
  case less
  have idx: "py_index starts (i - 1) = Some (starts ! nat (i - 1))"
    using less.prems(1-3) by (intro py_index_in_range) simp_all
  from less.prems(4) [of i] less.prems(2)
  have ok: "load_model_ok env i" "extraction env i (starts ! nat (i - 1)) = Exported"
    "detection env i (starts ! nat (i - 1)) = Detected (tok i) (prob i)"
    by simp_all
  let ?w4 = "w\<lparr>model_loads := Suc (model_loads w), tmp_created := Suc (tmp_created w),
                stdout := stdout w @ [Iteration_line i (strip_token (tok i)) (prob i)]\<rparr>"
  show ?case
  proof (cases "mn \<le> prob i \<or> mx \<le> i")
    case True
    have "detect_language env f starts mn mx i w =
        (Inr \<lparr>res_language = strip_token (tok i), res_probability = prob i,
              res_iterations = i\<rparr>, ?w4)"
      using True idx ok by (subst detect_language_step) simp
    then show ?thesis using True less.prems(2)
      by (intro exI [of _ i]) simp
  next
    case False
    then have lt: "i < mx" and low: "prob i < mn" by simp_all
    have step: "detect_language env f starts mn mx i w
        = detect_language env f starts mn mx (i + 1) ?w4"
      using False idx ok by (subst detect_language_step) simp
    have "\<exists>k. i + 1 \<le> k \<and> k \<le> mx \<and> (mn \<le> prob k \<or> mx \<le> k)
           \<and> (\<forall>j. i + 1 \<le> j \<and> j < k \<longrightarrow> prob j < mn)
           \<and> detect_language env f starts mn mx (i + 1) ?w4 =
               (Inr \<lparr>res_language = strip_token (tok k), res_probability = prob k,
                     res_iterations = k\<rparr>,
                ?w4\<lparr>model_loads := model_loads ?w4 + nat (k - (i + 1) + 1),
                  tmp_created := tmp_created ?w4 + nat (k - (i + 1) + 1),
                  stdout := stdout ?w4
                    @ map (\<lambda>j. Iteration_line j (strip_token (tok j)) (prob j)) [i + 1..k]\<rparr>)"
    proof (rule less.hyps)
      show "nat (mx - (i + 1)) < nat (mx - i)" using lt by simp
      show "1 \<le> i + 1" using less.prems(1) by simp
      show "i + 1 \<le> mx" using lt by simp
      show "mx \<le> int (length starts)" by (rule less.prems(3))
      show "load_model_ok env k \<and> extraction env k (starts ! nat (k - 1)) = Exported
           \<and> detection env k (starts ! nat (k - 1)) = Detected (tok k) (prob k)"
        if "i + 1 \<le> k" and "k \<le> mx" for k
        using less.prems(4) [of k] that by simp
    qed
    then obtain k where k: "i + 1 \<le> k" "k \<le> mx" "mn \<le> prob k \<or> mx \<le> k"
      "\<forall>j. i + 1 \<le> j \<and> j < k \<longrightarrow> prob j < mn"
      and run: "detect_language env f starts mn mx (i + 1) ?w4 =
               (Inr \<lparr>res_language = strip_token (tok k), res_probability = prob k,
                     res_iterations = k\<rparr>,
                ?w4\<lparr>model_loads := model_loads ?w4 + nat (k - (i + 1) + 1),
                  tmp_created := tmp_created ?w4 + nat (k - (i + 1) + 1),
                  stdout := stdout ?w4
                    @ map (\<lambda>j. Iteration_line j (strip_token (tok j)) (prob j)) [i + 1..k]\<rparr>)"
      by blast
    have earlier: "\<forall>j. i \<le> j \<and> j < k \<longrightarrow> prob j < mn"
    proof (intro allI impI)
      fix j assume "i \<le> j \<and> j < k"
      then consider "j = i" | "i + 1 \<le> j \<and> j < k" by linarith
      then show "prob j < mn" using low k(4) by cases auto
    qed
    have upto: "[i..k] = i # [i + 1..k]" using k(1) by (simp add: upto_rec1)
    have n: "Suc (nat (k - (i + 1) + 1)) = nat (k - i + 1)" using k(1) by simp
    have "detect_language env f starts mn mx i w =
               (Inr \<lparr>res_language = strip_token (tok k), res_probability = prob k,
                     res_iterations = k\<rparr>,
                w\<lparr>model_loads := model_loads w + nat (k - i + 1),
                  tmp_created := tmp_created w + nat (k - i + 1),
                  stdout := stdout w
                    @ map (\<lambda>j. Iteration_line j (strip_token (tok j)) (prob j)) [i..k]\<rparr>)"
      unfolding step run upto using n by simp
    with k earlier show ?thesis by (intro exI [of _ k]) simp
  qed
qed


lemma detect_language_cases:
  obtains
    (stop) r w' where "detect_language env f starts mn mx i w = (r, w')"
      and "model_loads w' = Suc (model_loads w)" and "stages_run w' = stages_run w"
      and "stdout w' = stdout w \<or> (\<exists>l. stdout w' = stdout w @ [l])"
      and "\<And>d. r = Inr d \<Longrightarrow> res_iterations d = i \<and> tmp_created w' = Suc (tmp_created w)"
      and "if r = Inl ExportError \<or> r = Inl LoadAudioError
           then \<exists>p. tmp_files w' = p # tmp_files w \<and> tmp_suffix p = suffix f
                  \<and> p \<notin> set (tmp_files w)
           else tmp_files w' = tmp_files w"
  | (continue) w4 where "detect_language env f starts mn mx i w
        = detect_language env f starts mn mx (i + 1) w4"
      and "i < mx"
      and "model_loads w4 = Suc (model_loads w)" and "stages_run w4 = stages_run w"
      and "tmp_created w4 = Suc (tmp_created w)" and "tmp_files w4 = tmp_files w"
proof (cases "\<exists>s tok p. load_model_ok env i \<and> py_index starts (i - 1) = Some s
    \<and> extraction env i s = Exported \<and> detection env i s = Detected tok p
    \<and> \<not> (mn \<le> p \<or> mx \<le> i)")
  case True
  then obtain s tok p where "load_model_ok env i" "py_index starts (i - 1) = Some s"
    "extraction env i s = Exported" "detection env i s = Detected tok p"
    "\<not> (mn \<le> p \<or> mx \<le> i)" by blast
  then show ?thesis
    by (intro continue [of "w\<lparr>model_loads := Suc (model_loads w),
          tmp_created := Suc (tmp_created w),
          stdout := stdout w @ [Iteration_line i (strip_token tok) p]\<rparr>"])
      (simp_all add: detect_language_step [of env f starts mn mx i w])
next
  case False
  obtain r w' where rw: "detect_language env f starts mn mx i w = (r, w')"
    by (cases "detect_language env f starts mn mx i w")
  note st = rw [unfolded detect_language_step [of env f starts mn mx i w]]
  show ?thesis
  proof (rule stop [OF rw])
    show "model_loads w' = Suc (model_loads w)"
      using st False
      by (auto simp: Let_def split: if_splits option.splits extract_outcome.splits
          detect_outcome.splits)
    show "stages_run w' = stages_run w"
      using st False
      by (auto simp: Let_def split: if_splits option.splits extract_outcome.splits
          detect_outcome.splits)
    show "stdout w' = stdout w \<or> (\<exists>l. stdout w' = stdout w @ [l])"
      using st False
      by (auto simp: Let_def split: if_splits option.splits extract_outcome.splits
          detect_outcome.splits)
    show "res_iterations d = i \<and> tmp_created w' = Suc (tmp_created w)" if "r = Inr d" for d
      using st False that
      by (auto simp: Let_def split: if_splits option.splits extract_outcome.splits
          detect_outcome.splits)
    show "if r = Inl ExportError \<or> r = Inl LoadAudioError
           then \<exists>p. tmp_files w' = p # tmp_files w \<and> tmp_suffix p = suffix f
                  \<and> p \<notin> set (tmp_files w)
           else tmp_files w' = tmp_files w"
      using st False
      by (auto simp: Let_def fresh_file_absent
          split: if_splits option.splits extract_outcome.splits detect_outcome.splits)
  qed
qed


lemma detect_language_effects:
  "\<exists>r w'. detect_language env f starts mn mx i w = (r, w')
     \<and> model_loads w < model_loads w'
     \<and> model_loads w' \<le> model_loads w + max 1 (nat (mx - i + 1))
     \<and> stages_run w' = stages_run w
     \<and> (\<forall>d. r = Inr d \<longrightarrow>
           res_iterations d = i + int (model_loads w' - model_loads w) - 1
           \<and> tmp_created w' = tmp_created w + (model_loads w' - model_loads w))
     \<and> (if r = Inl ExportError \<or> r = Inl LoadAudioError
         then \<exists>p. tmp_files w' = p # tmp_files w \<and> tmp_suffix p = suffix f
                \<and> p \<notin> set (tmp_files w)
         else tmp_files w' = tmp_files w)"
proof (induction "nat (mx - i)" arbitrary: i w rule: less_induct)
  case less
  show ?case
  proof (cases rule: detect_language_cases [of env f starts mn mx i w])
    case (stop r w')
    have "model_loads w' - model_loads w = 1" using stop(2) by simp
    with stop show ?thesis by (intro exI [of _ r] exI [of _ w']) auto
  next
    case (continue w4)
    have "nat (mx - (i + 1)) < nat (mx - i)" using continue(2) by simp
    from less.hyps [OF this, of w4]
    obtain r w' where run: "detect_language env f starts mn mx (i + 1) w4 = (r, w')"
      and lo: "model_loads w4 < model_loads w'"
      and hi: "model_loads w' \<le> model_loads w4 + max 1 (nat (mx - (i + 1) + 1))"
      and st: "stages_run w' = stages_run w4"
      and res: "\<forall>d. r = Inr d \<longrightarrow>
           res_iterations d = i + 1 + int (model_loads w' - model_loads w4) - 1
           \<and> tmp_created w' = tmp_created w4 + (model_loads w' - model_loads w4)"
      and fs: "if r = Inl ExportError \<or> r = Inl LoadAudioError
         then \<exists>p. tmp_files w' = p # tmp_files w4 \<and> tmp_suffix p = suffix f
                \<and> p \<notin> set (tmp_files w4)
         else tmp_files w' = tmp_files w4"
      by blast
    have a: "model_loads w < model_loads w'" using lo continue(3) by simp
    have b: "model_loads w' \<le> model_loads w + max 1 (nat (mx - i + 1))"
      using hi continue(2,3) by simp
    have c: "\<forall>d. r = Inr d \<longrightarrow>
           res_iterations d = i + int (model_loads w' - model_loads w) - 1
           \<and> tmp_created w' = tmp_created w + (model_loads w' - model_loads w)"
      using res lo continue(3,5) by auto
    show ?thesis
      using run a b c st fs [unfolded continue(6)] continue(1,4)
      by (intro exI [of _ r] exI [of _ w']) simp
  qed
qed


lemma detect_language_empty_plan:
  "\<exists>e w'. detect_language env f [] mn mx 1 w = (Inl e, w')"
  by (subst detect_language_step) (simp add: py_index_def)

lemma detect_language_stdout:
  "\<exists>ls. stdout (snd (detect_language env f starts mn mx i w)) = stdout w @ ls"
proof (induction "nat (mx - i)" arbitrary: i w rule: less_induct)
  case less
  show ?case
  proof (cases "\<exists>s tok p. load_model_ok env i \<and> py_index starts (i - 1) = Some s
      \<and> extraction env i s = Exported \<and> detection env i s = Detected tok p
      \<and> \<not> (mn \<le> p \<or> mx \<le> i)")
    case True
    then obtain s tok p where c: "load_model_ok env i" "py_index starts (i - 1) = Some s"
      "extraction env i s = Exported" "detection env i s = Detected tok p"
      "\<not> (mn \<le> p \<or> mx \<le> i)" by blast
    let ?w4 = "w\<lparr>model_loads := Suc (model_loads w), tmp_created := Suc (tmp_created w),
          stdout := stdout w @ [Iteration_line i (strip_token tok) p]\<rparr>"
    have step: "detect_language env f starts mn mx i w
        = detect_language env f starts mn mx (i + 1) ?w4"
      using c by (simp add: detect_language_step [of env f starts mn mx i w])
    have "nat (mx - (i + 1)) < nat (mx - i)" using c(5) by simp
    from less.hyps [OF this, of ?w4]
    obtain ls where "stdout (snd (detect_language env f starts mn mx (i + 1) ?w4))
        = stdout ?w4 @ ls" by blast
    then show ?thesis unfolding step by simp
  next
    case False
    then show ?thesis
      by (subst detect_language_step)
        (auto simp: Let_def split: if_splits option.splits extract_outcome.splits
          detect_outcome.splits)
  qed
qed

text \<open>
  Claim C1.  When the offsets cover every allowed iteration, the try bound is at
  least 1 and the external calls of the iterations 1 to the bound succeed, with
  iteration \<open>k\<close> detecting token \<open>tok k\<close> with probability \<open>prob k\<close>: the detector
  returns at the first iteration \<open>k\<close> whose probability reaches the threshold or
  that reaches the bound; it has printed the lines of the iterations 1 to \<open>k\<close> in
  this order, and the result is the language and probability of iteration \<open>k\<close>
  with \<open>k\<close> itself, whatever the earlier iterations detected.
\<close>

theorem detector_first_good_enough_else_last:
  fixes tok :: "int \<Rightarrow> string" and prob :: "int \<Rightarrow> real"
  assumes "1 \<le> language_detection_max_tries"
    and "language_detection_max_tries \<le> int (length segments_starts)"
    and "\<forall>k. 1 \<le> k \<and> k \<le> language_detection_max_tries \<longrightarrow>
           load_model_ok env k
           \<and> extraction env k (segments_starts ! nat (k - 1)) = Exported
           \<and> detection env k (segments_starts ! nat (k - 1)) = Detected (tok k) (prob k)"
  shows "\<exists>k. 1 \<le> k \<and> k \<le> language_detection_max_tries
           \<and> (language_detection_min_prob \<le> prob k \<or> language_detection_max_tries \<le> k)
           \<and> (\<forall>j. 1 \<le> j \<and> j < k \<longrightarrow>
                 \<not> (language_detection_min_prob \<le> prob j \<or> language_detection_max_tries \<le> j))
           \<and> fst (detect_language env full_audio_file_path segments_starts
                   language_detection_min_prob language_detection_max_tries 1 w)
               = Inr \<lparr>res_language = strip_token (tok k), res_probability = prob k,
                      res_iterations = k\<rparr>
           \<and> stdout (snd (detect_language env full_audio_file_path segments_starts
                   language_detection_min_prob language_detection_max_tries 1 w))
               = stdout w @ map (\<lambda>j. Iteration_line j (strip_token (tok j)) (prob j)) [1..k]"
proof -
  have ext: "load_model_ok env k
      \<and> extraction env k (segments_starts ! nat (k - 1)) = Exported
      \<and> detection env k (segments_starts ! nat (k - 1)) = Detected (tok k) (prob k)"
    if "1 \<le> k" and "k \<le> language_detection_max_tries" for k
    using assms(3) that by blast
  from detect_language_run [of 1 language_detection_max_tries segments_starts env tok prob
      language_detection_min_prob full_audio_file_path w, OF _ assms(1,2) ext]
  obtain k where k: "1 \<le> k" "k \<le> language_detection_max_tries"
      "language_detection_min_prob \<le> prob k \<or> language_detection_max_tries \<le> k"
      "\<forall>j. 1 \<le> j \<and> j < k \<longrightarrow> prob j < language_detection_min_prob"
    and run: "detect_language env full_audio_file_path segments_starts
        language_detection_min_prob language_detection_max_tries 1 w =
          (Inr \<lparr>res_language = strip_token (tok k), res_probability = prob k,
                res_iterations = k\<rparr>,
           w\<lparr>model_loads := model_loads w + nat (k - 1 + 1),
             tmp_created := tmp_created w + nat (k - 1 + 1),
             stdout := stdout w
               @ map (\<lambda>j. Iteration_line j (strip_token (tok j)) (prob j)) [1..k]\<rparr>)"
    by auto
  have "\<forall>j. 1 \<le> j \<and> j < k \<longrightarrow>
      \<not> (language_detection_min_prob \<le> prob j \<or> language_detection_max_tries \<le> j)"
    using k(2,4) by auto
  with k run show ?thesis by (intro exI [of _ k]) simp
qed

theorem detector_first_good_enough_else_last_witness:
  "(1::int) \<le> 2 \<and> (2::int) \<le> int (length [0, 35000 :: int])
   \<and> fst (detect_language (scripted [Detected ''<|fr|>'' (9/10), Detected ''<|en|>'' (3/10)])
          sample_audio [0, 35000] (95/100) 2 1 empty_world)
       = Inr \<lparr>res_language = ''en'', res_probability = 3/10, res_iterations = 2\<rparr>"
proof -
  let ?env = "scripted [Detected ''<|fr|>'' (9/10), Detected ''<|en|>'' (3/10)]"
  let ?tok = "\<lambda>k::int. if k = 1 then ''<|fr|>'' else ''<|en|>''"
  let ?prob = "\<lambda>k::int. if k = 1 then 9/10 else (3/10 :: real)"
  have h1: "(1::int) \<le> 2" by simp
  have h2: "(2::int) \<le> int (length [0, 35000 :: int])" by simp
  have h3: "\<forall>k. 1 \<le> k \<and> k \<le> 2 \<longrightarrow>
           load_model_ok ?env k
           \<and> extraction ?env k ([0, 35000] ! nat (k - 1)) = Exported
           \<and> detection ?env k ([0, 35000] ! nat (k - 1)) = Detected (?tok k) (?prob k)"
  proof (intro allI impI)
    fix k :: int assume "1 \<le> k \<and> k \<le> 2"
    then have "k = 1 \<or> k = 2" by linarith
    then show "load_model_ok ?env k
           \<and> extraction ?env k ([0, 35000] ! nat (k - 1)) = Exported
           \<and> detection ?env k ([0, 35000] ! nat (k - 1)) = Detected (?tok k) (?prob k)"
      by (auto simp: scripted_def)
  qed
  from detector_first_good_enough_else_last [of 2 "[0, 35000]" ?env ?tok ?prob "95/100"
      sample_audio empty_world, OF h1 h2 h3]
  obtain k :: int where k: "1 \<le> k" "k \<le> 2" "95/100 \<le> ?prob k \<or> 2 \<le> k"
    and res: "fst (detect_language ?env sample_audio [0, 35000] (95/100) 2 1 empty_world)
       = Inr \<lparr>res_language = strip_token (?tok k), res_probability = ?prob k,
              res_iterations = k\<rparr>"
    by blast
  from k have "k = 2" by (auto split: if_splits)
  with res h1 h2 show ?thesis by (simp add: strip_token_def)
qed


text \<open>
  Claim C4.  In an environment whose external calls succeed on the iterations 1 to 3
  and whose language head answers them with \<^verbatim>\<open><|en|>\<close> at 0.3, \<^verbatim>\<open><|en|>\<close> at 0.6 and
  \<^verbatim>\<open><|fr|>\<close> at 0.9, on any plan of at least three offsets: with threshold 0.5 and
  bound 5 the detector returns \<open>en\<close>, 0.6 and 2 after two model loads, two temporary
  files and two printed lines, so iteration 3 is never evaluated; with threshold
  0.95 and bound 3 it runs all three iterations and returns \<open>fr\<close>, 0.9 and 3.
\<close>

theorem detector_scripted_runs:
  assumes "\<forall>k s. 1 \<le> k \<and> k \<le> 3 \<longrightarrow> load_model_ok env k \<and> extraction env k s = Exported"
    and "\<forall>s. detection env 1 s = Detected ''<|en|>'' (3/10)"
    and "\<forall>s. detection env 2 s = Detected ''<|en|>'' (6/10)"
    and "\<forall>s. detection env 3 s = Detected ''<|fr|>'' (9/10)"
    and "3 \<le> length segments_starts"
  shows "detect_language env full_audio_file_path segments_starts (5/10) 5 1 w
           = (Inr \<lparr>res_language = ''en'', res_probability = 6/10, res_iterations = 2\<rparr>,
              w\<lparr>model_loads := model_loads w + 2, tmp_created := tmp_created w + 2,
                stdout := stdout w @ [Iteration_line 1 ''en'' (3/10),
                                      Iteration_line 2 ''en'' (6/10)]\<rparr>)
         \<and> detect_language env full_audio_file_path segments_starts (95/100) 3 1 w
           = (Inr \<lparr>res_language = ''fr'', res_probability = 9/10, res_iterations = 3\<rparr>,
              w\<lparr>model_loads := model_loads w + 3, tmp_created := tmp_created w + 3,
                stdout := stdout w @ [Iteration_line 1 ''en'' (3/10),
                                      Iteration_line 2 ''en'' (6/10),
                                      Iteration_line 3 ''fr'' (9/10)]\<rparr>)"
proof -
  have ok: "load_model_ok env 1" "load_model_ok env 2" "load_model_ok env 3"
    "\<And>s. extraction env 1 s = Exported" "\<And>s. extraction env 2 s = Exported"
    "\<And>s. extraction env 3 s = Exported"
    using assms(1) by simp_all
  have idx: "py_index segments_starts 0 = Some (segments_starts ! 0)"
    "py_index segments_starts 1 = Some (segments_starts ! 1)"
    "py_index segments_starts 2 = Some (segments_starts ! 2)"
    using assms(5) by (auto simp: py_index_def)
  have tok: "strip_token ''<|en|>'' = ''en''" "strip_token ''<|fr|>'' = ''fr''"
    by (simp_all add: strip_token_def)
  have third: "detect_language env full_audio_file_path segments_starts (95/100) 3 3 w'
      = (Inr \<lparr>res_language = ''fr'', res_probability = 9/10, res_iterations = 3\<rparr>,
         w'\<lparr>model_loads := Suc (model_loads w'), tmp_created := Suc (tmp_created w'),
            stdout := stdout w' @ [Iteration_line 3 ''fr'' (9/10)]\<rparr>)" for w'
    by (subst detect_language_step) (simp add: ok idx tok assms(4))
  have second_a: "detect_language env full_audio_file_path segments_starts (5/10) 5 2 w'
      = (Inr \<lparr>res_language = ''en'', res_probability = 6/10, res_iterations = 2\<rparr>,
         w'\<lparr>model_loads := Suc (model_loads w'), tmp_created := Suc (tmp_created w'),
            stdout := stdout w' @ [Iteration_line 2 ''en'' (6/10)]\<rparr>)" for w'
    by (subst detect_language_step) (simp add: ok idx tok assms(3))
  have second_b: "detect_language env full_audio_file_path segments_starts (95/100) 3 2 w'
      = detect_language env full_audio_file_path segments_starts (95/100) 3 3
         (w'\<lparr>model_loads := Suc (model_loads w'), tmp_created := Suc (tmp_created w'),
            stdout := stdout w' @ [Iteration_line 2 ''en'' (6/10)]\<rparr>)" for w'
    by (subst detect_language_step) (simp add: ok idx tok assms(3))
  have first_a: "detect_language env full_audio_file_path segments_starts (5/10) 5 1 w
      = detect_language env full_audio_file_path segments_starts (5/10) 5 2
         (w\<lparr>model_loads := Suc (model_loads w), tmp_created := Suc (tmp_created w),
            stdout := stdout w @ [Iteration_line 1 ''en'' (3/10)]\<rparr>)"
    by (subst detect_language_step) (simp add: ok idx tok assms(2))
  have first_b: "detect_language env full_audio_file_path segments_starts (95/100) 3 1 w
      = detect_language env full_audio_file_path segments_starts (95/100) 3 2
         (w\<lparr>model_loads := Suc (model_loads w), tmp_created := Suc (tmp_created w),
            stdout := stdout w @ [Iteration_line 1 ''en'' (3/10)]\<rparr>)"
    by (subst detect_language_step) (simp add: ok idx tok assms(2))
  show ?thesis
    unfolding first_a second_a first_b second_b third by simp
qed

lemma scripted_ok:
  "load_model_ok (scripted os) k" "extraction (scripted os) k s = Exported"
  by (simp_all add: scripted_def)

theorem detector_scripted_runs_witness:
  "3 \<le> length [0, 35000, 70000 :: int]
   \<and> detect_language
        (scripted [Detected ''<|en|>'' (3/10), Detected ''<|en|>'' (6/10),
                   Detected ''<|fr|>'' (9/10)])
        sample_audio [0, 35000, 70000] (5/10) 5 1 empty_world
      = (Inr \<lparr>res_language = ''en'', res_probability = 6/10, res_iterations = 2\<rparr>,
         \<lparr>tmp_files = [], tmp_created = 2, model_loads = 2,
          stdout = [Iteration_line 1 ''en'' (3/10), Iteration_line 2 ''en'' (6/10)],
          stages_run = []\<rparr>)
   \<and> detect_language
        (scripted [Detected ''<|en|>'' (3/10), Detected ''<|en|>'' (6/10),
                   Detected ''<|fr|>'' (9/10)])
        sample_audio [0, 35000, 70000] (95/100) 3 1 empty_world
      = (Inr \<lparr>res_language = ''fr'', res_probability = 9/10, res_iterations = 3\<rparr>,
         \<lparr>tmp_files = [], tmp_created = 3, model_loads = 3,
          stdout = [Iteration_line 1 ''en'' (3/10), Iteration_line 2 ''en'' (6/10),
                    Iteration_line 3 ''fr'' (9/10)],
          stages_run = []\<rparr>)"
proof -
  let ?env = "scripted [Detected ''<|en|>'' (3/10), Detected ''<|en|>'' (6/10),
                   Detected ''<|fr|>'' (9/10)]"
  have h1: "\<forall>k s. 1 \<le> k \<and> k \<le> 3 \<longrightarrow> load_model_ok ?env k \<and> extraction ?env k s = Exported"
    by (simp add: scripted_ok)
  have h2: "\<forall>s. detection ?env 1 s = Detected ''<|en|>'' (3/10)"
    and h3: "\<forall>s. detection ?env 2 s = Detected ''<|en|>'' (6/10)"
    and h4: "\<forall>s. detection ?env 3 s = Detected ''<|fr|>'' (9/10)"
    by (simp_all add: scripted_def)
  have h5: "3 \<le> length [0, 35000, 70000 :: int]" by simp
  from detector_scripted_runs [OF h1 h2 h3 h4 h5, of sample_audio empty_world] h5
  show ?thesis by (simp add: empty_world_def)
qed


text \<open>
  Claim C8.  Every activation of \<^verbatim>\<open>detect_language\<close> calls \<^verbatim>\<open>whisperx.load_model\<close>
  once, as its first statement, so the growth of \<open>model_loads\<close> over a run is the
  number of activations, which is the recursion depth.  With a bound of at least 1,
  whatever the environment and the offsets: the run started at iteration 1 ends,
  its depth is at least 1 and at most the bound, and a returned result reports
  the depth as its iteration count.  When moreover the offsets cover the bound and
  the external calls of the iterations 1 to the bound succeed, a result is
  returned, and if no iteration reaches the threshold the depth is the bound.
  The interpreter's own limit on the recursion depth is not part of the model.
\<close>

theorem detector_depth_bounded:
  fixes tok :: "int \<Rightarrow> string" and prob :: "int \<Rightarrow> real"
  assumes "1 \<le> language_detection_max_tries"
  shows "\<exists>r w'. detect_language env full_audio_file_path segments_starts
                  language_detection_min_prob language_detection_max_tries 1 w = (r, w')
           \<and> 1 \<le> model_loads w' - model_loads w
           \<and> int (model_loads w' - model_loads w) \<le> language_detection_max_tries
           \<and> (\<forall>d. r = Inr d \<longrightarrow> res_iterations d = int (model_loads w' - model_loads w))
           \<and> (language_detection_max_tries \<le> int (length segments_starts)
                \<and> (\<forall>k. 1 \<le> k \<and> k \<le> language_detection_max_tries \<longrightarrow>
                      load_model_ok env k
                      \<and> extraction env k (segments_starts ! nat (k - 1)) = Exported
                      \<and> detection env k (segments_starts ! nat (k - 1))
                          = Detected (tok k) (prob k))
                \<longrightarrow> (\<exists>d. r = Inr d)
                    \<and> ((\<forall>k. 1 \<le> k \<and> k \<le> language_detection_max_tries \<longrightarrow>
                           prob k < language_detection_min_prob)
                        \<longrightarrow> int (model_loads w' - model_loads w)
                              = language_detection_max_tries))"
proof -
  let ?mx = language_detection_max_tries and ?mn = language_detection_min_prob
  from detect_language_effects [of env full_audio_file_path segments_starts ?mn ?mx 1 w]
  obtain r w' where run: "detect_language env full_audio_file_path segments_starts
        ?mn ?mx 1 w = (r, w')"
    and lo: "model_loads w < model_loads w'"
    and hi: "model_loads w' \<le> model_loads w + max 1 (nat (?mx - 1 + 1))"
    and res: "\<forall>d. r = Inr d \<longrightarrow>
           res_iterations d = 1 + int (model_loads w' - model_loads w) - 1"
    by blast
  have a: "1 \<le> model_loads w' - model_loads w" using lo by simp
  have b: "int (model_loads w' - model_loads w) \<le> ?mx" using hi assms by simp
  have c: "\<forall>d. r = Inr d \<longrightarrow> res_iterations d = int (model_loads w' - model_loads w)"
    using res by simp
  have d: "(\<exists>d. r = Inr d)
      \<and> ((\<forall>k. 1 \<le> k \<and> k \<le> ?mx \<longrightarrow> prob k < ?mn)
          \<longrightarrow> int (model_loads w' - model_loads w) = ?mx)"
    if len: "?mx \<le> int (length segments_starts)"
      and ext: "\<forall>k. 1 \<le> k \<and> k \<le> ?mx \<longrightarrow>
                      load_model_ok env k
                      \<and> extraction env k (segments_starts ! nat (k - 1)) = Exported
                      \<and> detection env k (segments_starts ! nat (k - 1))
                          = Detected (tok k) (prob k)"
  proof -
    have ext': "load_model_ok env k
        \<and> extraction env k (segments_starts ! nat (k - 1)) = Exported
        \<and> detection env k (segments_starts ! nat (k - 1)) = Detected (tok k) (prob k)"
      if "1 \<le> k" and "k \<le> ?mx" for k
      using ext that by blast
    from detect_language_run [of 1 ?mx segments_starts env tok prob ?mn
        full_audio_file_path w, OF _ assms len ext']
    obtain k where k: "1 \<le> k" "k \<le> ?mx" "?mn \<le> prob k \<or> ?mx \<le> k"
      and run': "detect_language env full_audio_file_path segments_starts ?mn ?mx 1 w =
          (Inr \<lparr>res_language = strip_token (tok k), res_probability = prob k,
                res_iterations = k\<rparr>,
           w\<lparr>model_loads := model_loads w + nat (k - 1 + 1),
             tmp_created := tmp_created w + nat (k - 1 + 1),
             stdout := stdout w
               @ map (\<lambda>j. Iteration_line j (strip_token (tok j)) (prob j)) [1..k]\<rparr>)"
      by auto
    from run run' have r: "r = Inr \<lparr>res_language = strip_token (tok k),
        res_probability = prob k, res_iterations = k\<rparr>" by simp
    with c have depth: "int (model_loads w' - model_loads w) = k" by simp
    have "int (model_loads w' - model_loads w) = ?mx"
      if "\<forall>k. 1 \<le> k \<and> k \<le> ?mx \<longrightarrow> prob k < ?mn"
    proof -
      from that k(1,2) have "prob k < ?mn" by blast
      with k(2,3) have "k = ?mx" by simp
      with depth show ?thesis by simp
    qed
    with r show ?thesis by blast
  qed
  show ?thesis
    using run a b c d by (intro exI [of _ r] exI [of _ w']) blast
qed

theorem detector_depth_bounded_witness:
  "(1::int) \<le> 3
   \<and> model_loads (snd (detect_language
        (scripted [Detected ''<|en|>'' (3/10), Detected ''<|en|>'' (6/10),
                   Detected ''<|fr|>'' (9/10)])
        sample_audio [0, 35000, 70000] (95/100) 3 1 empty_world)) = 3
   \<and> res_iterations (projr (fst (detect_language
        (scripted [Detected ''<|en|>'' (3/10), Detected ''<|en|>'' (6/10),
                   Detected ''<|fr|>'' (9/10)])
        sample_audio [0, 35000, 70000] (95/100) 3 1 empty_world))) = 3"
proof -
  let ?env = "scripted [Detected ''<|en|>'' (3/10), Detected ''<|en|>'' (6/10),
                   Detected ''<|fr|>'' (9/10)]"
  let ?tok = "\<lambda>k::int. if k = 3 then ''<|fr|>'' else ''<|en|>''"
  let ?prob = "\<lambda>k::int. if k = 1 then 3/10 else if k = 2 then 6/10 else (9/10 :: real)"
  have h1: "(1::int) \<le> 3" by simp
  have h2: "(3::int) \<le> int (length [0, 35000, 70000 :: int])" by simp
  have cases3: "k = 1 \<or> k = 2 \<or> k = 3" if "1 \<le> k \<and> k \<le> 3" for k :: int
    using that by linarith
  have h3: "\<forall>k. 1 \<le> k \<and> k \<le> 3 \<longrightarrow>
           load_model_ok ?env k
           \<and> extraction ?env k ([0, 35000, 70000] ! nat (k - 1)) = Exported
           \<and> detection ?env k ([0, 35000, 70000] ! nat (k - 1)) = Detected (?tok k) (?prob k)"
  proof (intro allI impI)
    fix k :: int assume "1 \<le> k \<and> k \<le> 3"
    from cases3 [OF this]
    show "load_model_ok ?env k
           \<and> extraction ?env k ([0, 35000, 70000] ! nat (k - 1)) = Exported
           \<and> detection ?env k ([0, 35000, 70000] ! nat (k - 1)) = Detected (?tok k) (?prob k)"
      by (auto simp: scripted_def)
  qed
  have h4: "\<forall>k. 1 \<le> k \<and> k \<le> 3 \<longrightarrow> ?prob k < 95/100" by simp
  from detector_depth_bounded [OF h1, of ?env sample_audio "[0, 35000, 70000]" "95/100"
      empty_world ?tok ?prob]
  obtain r w' where run: "detect_language ?env sample_audio [0, 35000, 70000] (95/100) 3 1
        empty_world = (r, w')"
    and c: "\<forall>d. r = Inr d \<longrightarrow> res_iterations d = int (model_loads w' - model_loads empty_world)"
    and d: "3 \<le> int (length [0, 35000, 70000 :: int])
                \<and> (\<forall>k. 1 \<le> k \<and> k \<le> 3 \<longrightarrow>
                      load_model_ok ?env k
                      \<and> extraction ?env k ([0, 35000, 70000] ! nat (k - 1)) = Exported
                      \<and> detection ?env k ([0, 35000, 70000] ! nat (k - 1))
                          = Detected (?tok k) (?prob k))
                \<longrightarrow> (\<exists>d. r = Inr d)
                    \<and> ((\<forall>k. 1 \<le> k \<and> k \<le> 3 \<longrightarrow> ?prob k < 95/100)
                        \<longrightarrow> int (model_loads w' - model_loads empty_world) = 3)"
    by blast
  from d h2 h3 h4 have e: "\<exists>d. r = Inr d"
    and f: "int (model_loads w' - model_loads empty_world) = 3" by blast+
  from f have "model_loads w' = 3" by (simp add: empty_world_def)
  moreover from e c f have "res_iterations (projr r) = 3" by auto
  ultimately show ?thesis using run h1 by simp
qed


text \<open>
  Claim C9.  The claim asks that no temporary file of a run remains, whether the
  run succeeds or fails.  The code reaches \<^verbatim>\<open>unlink\<close> only once
  \<^verbatim>\<open>whisperx.load_audio\<close> has returned: when it raises on the first slice, the run
  aborts and the slice's temporary file is still on the filesystem.
\<close>

theorem temp_file_left_after_failed_load:
  "fst (detect_language (scripted [Load_audio_raises]) sample_audio [0] 0 1 1 empty_world)
     = Inl LoadAudioError
   \<and> tmp_files (snd (detect_language (scripted [Load_audio_raises]) sample_audio [0] 0 1 1
        empty_world))
     = [\<lparr>tmp_name = 1, tmp_suffix = ''.mp3'', from_ms = 0, to_ms = 30000\<rparr>]"
  by (simp add: detect_language_step [of _ _ _ _ _ 1] scripted_def py_index_def
      empty_world_def sample_audio_def fresh_name_def)

text \<open>
  Where the temporary files of a run go.  An extraction that gets past decoding
  the source writes exactly one temporary file, with the suffix of the input and
  a name no present temporary file has.  A detection run leaves a file behind
  exactly when it aborts in the export or in \<^verbatim>\<open>whisperx.load_audio\<close>; a run that
  returns has created one temporary file for each of its iterations and removed
  each of them.
\<close>

lemma temp_files_of_a_run:
  "(outcome \<noteq> Decode_raises \<longrightarrow>
      (\<exists>p. snd (extract_audio_segment outcome input_file_path start_time_ms duration_ms w)
             = w\<lparr>tmp_files := p # tmp_files w, tmp_created := Suc (tmp_created w)\<rparr>
           \<and> tmp_suffix p = suffix input_file_path \<and> p \<notin> set (tmp_files w)
           \<and> (outcome = Exported \<longrightarrow>
                fst (extract_audio_segment outcome input_file_path start_time_ms duration_ms w)
                  = Inr p)))
   \<and> (\<exists>r w'. detect_language env full_audio_file_path segments_starts
                 language_detection_min_prob language_detection_max_tries iteration w = (r, w')
          \<and> (r \<noteq> Inl ExportError \<and> r \<noteq> Inl LoadAudioError \<longrightarrow> tmp_files w' = tmp_files w)
          \<and> (r = Inl ExportError \<or> r = Inl LoadAudioError \<longrightarrow>
                (\<exists>p. tmp_files w' = p # tmp_files w
                     \<and> tmp_suffix p = suffix full_audio_file_path))
          \<and> (\<forall>d. r = Inr d \<longrightarrow>
                tmp_created w' = tmp_created w + nat (res_iterations d - iteration + 1)))"
proof (intro conjI impI)
  assume "outcome \<noteq> Decode_raises"
  then show "\<exists>p. snd (extract_audio_segment outcome input_file_path start_time_ms duration_ms w)
             = w\<lparr>tmp_files := p # tmp_files w, tmp_created := Suc (tmp_created w)\<rparr>
           \<and> tmp_suffix p = suffix input_file_path \<and> p \<notin> set (tmp_files w)
           \<and> (outcome = Exported \<longrightarrow>
                fst (extract_audio_segment outcome input_file_path start_time_ms duration_ms w)
                  = Inr p)"
    by (intro exI [of _ "\<lparr>tmp_name = fresh_name (tmp_files w),
          tmp_suffix = suffix input_file_path, from_ms = start_time_ms,
          to_ms = start_time_ms + duration_ms\<rparr>"])
      (simp add: extract_audio_segment_def Let_def fresh_file_absent
        split: extract_outcome.splits)
next
  from detect_language_effects [of env full_audio_file_path segments_starts
      language_detection_min_prob language_detection_max_tries iteration w]
  obtain r w' where run: "detect_language env full_audio_file_path segments_starts
        language_detection_min_prob language_detection_max_tries iteration w = (r, w')"
    and lo: "model_loads w < model_loads w'"
    and res: "\<forall>d. r = Inr d \<longrightarrow>
           res_iterations d = iteration + int (model_loads w' - model_loads w) - 1
           \<and> tmp_created w' = tmp_created w + (model_loads w' - model_loads w)"
    and fs: "if r = Inl ExportError \<or> r = Inl LoadAudioError
         then \<exists>p. tmp_files w' = p # tmp_files w \<and> tmp_suffix p = suffix full_audio_file_path
                \<and> p \<notin> set (tmp_files w)
         else tmp_files w' = tmp_files w"
    by blast
  have a: "r \<noteq> Inl ExportError \<and> r \<noteq> Inl LoadAudioError \<longrightarrow> tmp_files w' = tmp_files w"
    using fs by (auto split: if_splits)
  have b: "r = Inl ExportError \<or> r = Inl LoadAudioError \<longrightarrow>
                (\<exists>p. tmp_files w' = p # tmp_files w
                     \<and> tmp_suffix p = suffix full_audio_file_path)"
    using fs by (auto split: if_splits)
  have c: "\<forall>d. r = Inr d \<longrightarrow>
                tmp_created w' = tmp_created w + nat (res_iterations d - iteration + 1)"
    using res lo by auto
  show "\<exists>r w'. detect_language env full_audio_file_path segments_starts
                 language_detection_min_prob language_detection_max_tries iteration w = (r, w')
          \<and> (r \<noteq> Inl ExportError \<and> r \<noteq> Inl LoadAudioError \<longrightarrow> tmp_files w' = tmp_files w)
          \<and> (r = Inl ExportError \<or> r = Inl LoadAudioError \<longrightarrow>
                (\<exists>p. tmp_files w' = p # tmp_files w
                     \<and> tmp_suffix p = suffix full_audio_file_path))
          \<and> (\<forall>d. r = Inr d \<longrightarrow>
                tmp_created w' = tmp_created w + nat (res_iterations d - iteration + 1))"
    using run a b c by (intro exI [of _ r] exI [of _ w']) blast
qed

section \<open>Properties of the orchestrator\<close>


lemma clamped_tries_div:
  "clamped_tries language_detection_max_tries audio_duration segments_duration_ms
     = min language_detection_max_tries (audio_duration div segments_duration_ms)"
  by (simp add: clamped_tries_def floor_divide_of_int_eq)

lemma predict_detecting:
  "predict env audio_file None mn mx al di w =
     (case detect_language env audio_file
             (distribute_segments_equally (get_audio_duration env audio_file) 30000
                (min mx (get_audio_duration env audio_file div 30000)))
             mn (min mx (get_audio_duration env audio_file div 30000)) 1
             (print_line (Segments_line
                (distribute_segments_equally (get_audio_duration env audio_file) 30000
                   (min mx (get_audio_duration env audio_file div 30000)))) w) of
        (Inl e, w2) \<Rightarrow> (Inl e, w2)
      | (Inr d, w2) \<Rightarrow>
          predict env audio_file (Some (res_language d)) mn mx al di
            (print_line (Detected_line (res_language d) (res_probability d)
               (res_iterations d)) w2))"
  by (simp add: predict_def clamped_tries_div Let_def split: prod.splits sum.splits)

lemma predict_resolved:
  "\<exists>w'. predict env audio_file (Some l) mn mx align_output diarization w
          = (Inr \<lparr>segments =
                    (if (result_language (transcribe env l) \<in> set (align_models_torch env)
                         \<or> result_language (transcribe env l) \<in> set (align_models_hf env))
                        \<and> align_output
                     then result_segments (align env (transcribe env l))
                     else if (result_language (transcribe env l) \<in> set (align_models_torch env)
                              \<or> result_language (transcribe env l) \<in> set (align_models_hf env))
                             \<and> \<not> align_output \<and> diarization
                     then result_segments (diarize env (transcribe env l))
                     else result_segments (transcribe env l)),
                  detected_language = result_language (transcribe env l)\<rparr>, w')
        \<and> stages_run w' = stages_run w
             @ (if (result_language (transcribe env l) \<in> set (align_models_torch env)
                    \<or> result_language (transcribe env l) \<in> set (align_models_hf env))
                   \<and> align_output
                then [Align]
                else if (result_language (transcribe env l) \<in> set (align_models_torch env)
                         \<or> result_language (transcribe env l) \<in> set (align_models_hf env))
                        \<and> \<not> align_output \<and> diarization
                then [Diarize]
                else [])"
  by (simp add: predict_def Let_def)

lemma stages_run_print_line [simp]: "stages_run (print_line l w) = stages_run w"
  by (simp add: print_line_def)

lemma predict_resolved_stdout:
  "stdout (snd (predict env audio_file (Some l) mn mx al di w)) = stdout w"
  by (simp add: predict_def Let_def)

text \<open>
  Claim C6.  For a decoded audio length between 0 and \<open>2 ^ 53\<close> ms, the range in which
  the floor of the float quotient is the floor of the exact one: the duration the
  orchestrator works with is the decoded length; the try count is the smaller of
  the requested tries and the floor of that length over 30000; the planner is
  called with this count and returns that many offsets, which are printed first;
  the detector is run on this plan with this count as its bound, starting at
  iteration 1, and a detection that returns took between 1 and that many
  iterations; the prediction then goes on with the detected language, or aborts
  with the detector's error.
\<close>

theorem predict_passes_clamped_tries:
  assumes "0 \<le> audio_length_ms env audio_file"
    and "audio_length_ms env audio_file < 2 ^ 53"
  shows "let duration = audio_length_ms env audio_file;
             tries = min language_detection_max_tries (duration div 30000);
             plan = distribute_segments_equally duration 30000 tries;
             detected = detect_language env audio_file plan language_detection_min_prob
                          tries 1 (print_line (Segments_line plan) w)
         in get_audio_duration env audio_file = duration
            \<and> clamped_tries language_detection_max_tries duration 30000 = tries
            \<and> length plan = nat tries
            \<and> predict env audio_file None language_detection_min_prob
                  language_detection_max_tries align_output diarization w
                = (case detected of
                     (Inl e, w2) \<Rightarrow> (Inl e, w2)
                   | (Inr d, w2) \<Rightarrow>
                       predict env audio_file (Some (res_language d))
                         language_detection_min_prob language_detection_max_tries
                         align_output diarization
                         (print_line (Detected_line (res_language d) (res_probability d)
                            (res_iterations d)) w2))
            \<and> (\<exists>ls. stdout (snd (predict env audio_file None language_detection_min_prob
                         language_detection_max_tries align_output diarization w))
                      = stdout w @ Segments_line plan # ls)
            \<and> (\<forall>d. fst detected = Inr d \<longrightarrow>
                  1 \<le> res_iterations d \<and> res_iterations d \<le> tries)"
proof -
  let ?L = "audio_length_ms env audio_file"
  let ?n = "min language_detection_max_tries (?L div 30000)"
  let ?plan = "distribute_segments_equally ?L 30000 ?n"
  let ?w1 = "print_line (Segments_line ?plan) w"
  let ?det = "detect_language env audio_file ?plan language_detection_min_prob ?n 1 ?w1"
  let ?pred = "predict env audio_file None language_detection_min_prob
      language_detection_max_tries align_output diarization w"
  have dur: "get_audio_duration env audio_file = ?L" by (simp add: get_audio_duration_def)
  have eq: "?pred = (case ?det of
                     (Inl e, w2) \<Rightarrow> (Inl e, w2)
                   | (Inr d, w2) \<Rightarrow>
                       predict env audio_file (Some (res_language d))
                         language_detection_min_prob language_detection_max_tries
                         align_output diarization
                         (print_line (Detected_line (res_language d) (res_probability d)
                            (res_iterations d)) w2))"
    using predict_detecting [of env audio_file language_detection_min_prob
        language_detection_max_tries align_output diarization w]
    unfolding dur .
  obtain ls where ls: "stdout (snd ?det) = stdout ?w1 @ ls"
    using detect_language_stdout by blast
  have out: "\<exists>ls'. stdout (snd ?pred) = stdout w @ Segments_line ?plan # ls'"
  proof (cases ?det)
    case (Pair r w2)
    with ls have w2: "stdout w2 = stdout w @ Segments_line ?plan # ls"
      by (simp add: print_line_def)
    show ?thesis
    proof (cases r)
      case (Inl e)
      with Pair w2 show ?thesis unfolding eq by simp
    next
      case (Inr d)
      with Pair w2 show ?thesis unfolding eq
        by (simp add: predict_resolved_stdout print_line_def)
    qed
  qed
  have its: "1 \<le> res_iterations d \<and> res_iterations d \<le> ?n" if "fst ?det = Inr d" for d
  proof (cases "1 \<le> ?n")
    case True
    from detect_language_effects [of env audio_file ?plan language_detection_min_prob ?n 1 ?w1]
    obtain r w' where run: "?det = (r, w')"
      and lo: "model_loads ?w1 < model_loads w'"
      and hi: "model_loads w' \<le> model_loads ?w1 + max 1 (nat (?n - 1 + 1))"
      and res: "\<forall>d. r = Inr d \<longrightarrow>
           res_iterations d = 1 + int (model_loads w' - model_loads ?w1) - 1"
      by blast
    from run that have "r = Inr d" by simp
    with res have "res_iterations d = int (model_loads w' - model_loads ?w1)" by simp
    moreover have "1 \<le> int (b - a) \<and> int (b - a) \<le> n"
      if "a < b" and "b \<le> a + max 1 (nat (n - 1 + 1))" and "1 \<le> n" for a b :: nat and n :: int
      using that by simp
    ultimately show ?thesis using lo hi True by metis
  next
    case False
    then have "?n \<le> 0" by linarith
    then have "?plan = []" by (rule distribute_nonpositive)
    with detect_language_empty_plan [of env audio_file language_detection_min_prob ?n ?w1] that
    show ?thesis by auto
  qed
  show ?thesis
    unfolding Let_def using dur eq out its
    by (simp add: clamped_tries_div length_distribute)
qed


theorem predict_passes_clamped_tries_witness:
  "0 \<le> audio_length_ms (sample_pipeline 100000) sample_audio
   \<and> audio_length_ms (sample_pipeline 100000) sample_audio < 2 ^ 53
   \<and> clamped_tries 5 100000 30000 = 3
   \<and> fst (predict (sample_pipeline 100000) sample_audio None 1 5 False False empty_world)
       = Inr \<lparr>segments = [''hello''], detected_language = ''en''\<rparr>
   \<and> stdout (snd (predict (sample_pipeline 100000) sample_audio None 1 5 False False
        empty_world))
       = [Segments_line [0, 35000, 70000], Iteration_line 1 ''en'' (9/10),
          Iteration_line 2 ''en'' (9/10), Iteration_line 3 ''en'' (9/10),
          Detected_line ''en'' (9/10) 3]"
proof -
  let ?env = "sample_pipeline 100000"
  have L: "audio_length_ms ?env sample_audio = 100000" by (simp add: sample_pipeline_def)
  have h1: "0 \<le> audio_length_ms ?env sample_audio"
    and h2: "audio_length_ms ?env sample_audio < 2 ^ 53"
    by (simp_all add: L)
  have plan: "distribute_segments_equally 100000 30000 3 = [0, 35000, 70000]"
    by (simp add: distribute_segments_equally_def py_range_def set_last_def upto.simps)
  have det: "detect_language ?env sample_audio [0, 35000, 70000] 1 3 1
      (print_line (Segments_line [0, 35000, 70000]) empty_world)
      = (Inr \<lparr>res_language = ''en'', res_probability = 9/10, res_iterations = 3\<rparr>,
         \<lparr>tmp_files = [], tmp_created = 3, model_loads = 3,
          stdout = [Segments_line [0, 35000, 70000], Iteration_line 1 ''en'' (9/10),
                    Iteration_line 2 ''en'' (9/10), Iteration_line 3 ''en'' (9/10)],
          stages_run = []\<rparr>)"
    by (simp add: detect_language_step [of _ _ _ _ _ 1] detect_language_step [of _ _ _ _ _ 2]
        detect_language_step [of _ _ _ _ _ 3] sample_pipeline_def py_index_def
        strip_token_def print_line_def empty_world_def)
  note inst = predict_passes_clamped_tries [OF h1 h2,
      where language_detection_max_tries = 5 and language_detection_min_prob = 1
        and align_output = False and diarization = False and w = empty_world,
      unfolded Let_def L]
  have tries: "min 5 (100000 div 30000 :: int) = 3" by simp
  from inst have ct: "clamped_tries 5 100000 30000 = 3" unfolding tries by blast
  from inst have eq: "predict ?env sample_audio None 1 5 False False empty_world
      = predict ?env sample_audio (Some ''en'') 1 5 False False
          (print_line (Detected_line ''en'' (9/10) 3)
             \<lparr>tmp_files = [], tmp_created = 3, model_loads = 3,
              stdout = [Segments_line [0, 35000, 70000], Iteration_line 1 ''en'' (9/10),
                        Iteration_line 2 ''en'' (9/10), Iteration_line 3 ''en'' (9/10)],
              stages_run = []\<rparr>)"
    unfolding tries plan det by simp
  have "fst (predict ?env sample_audio None 1 5 False False empty_world)
       = Inr \<lparr>segments = [''hello''], detected_language = ''en''\<rparr>"
    unfolding eq by (simp add: predict_def Let_def sample_pipeline_def)
  moreover have "stdout (snd (predict ?env sample_audio None 1 5 False False empty_world))
       = [Segments_line [0, 35000, 70000], Iteration_line 1 ''en'' (9/10),
          Iteration_line 2 ''en'' (9/10), Iteration_line 3 ''en'' (9/10),
          Detected_line ''en'' (9/10) 3]"
    unfolding eq by (simp add: predict_resolved_stdout print_line_def)
  ultimately show ?thesis using h1 h2 ct by blast
qed

text \<open>
  Claim C7.  Let \<open>detected\<close> be the detector's run on the plan for the clamped try
  count.  Whenever the language \<open>l\<close> is given, or is the result of a detection that
  returned, the prediction returns an output, and with \<open>supported\<close> the membership of
  the transcription's language in the keys of either table of alignment models:
  the stages called are alignment alone when supported and \<open>align_output\<close>,
  diarization alone when supported, not \<open>align_output\<close> and \<open>diarization\<close>, and none
  otherwise; the output's segments are those of the stage called, and those of
  the transcription itself when no stage is called.  When no language is given
  and the detection aborts, the prediction aborts with the same error and no stage
  is called.
\<close>

theorem align_and_diarize_exclusive:
  "let duration = get_audio_duration env audio_file;
       tries = clamped_tries language_detection_max_tries duration 30000;
       plan = distribute_segments_equally duration 30000 tries;
       detected = detect_language env audio_file plan language_detection_min_prob tries 1
                    (print_line (Segments_line plan) w)
   in (\<forall>l. language = Some l
             \<or> (language = None \<and> (\<exists>d. fst detected = Inr d \<and> res_language d = l))
          \<longrightarrow> (\<exists>out w'. predict env audio_file language language_detection_min_prob
                           language_detection_max_tries align_output diarization w
                         = (Inr out, w')
                \<and> (let result = transcribe env l;
                        supported = (result_language result \<in> set (align_models_torch env)
                                     \<or> result_language result \<in> set (align_models_hf env))
                    in detected_language out = result_language result
                       \<and> stages_run w' = stages_run w
                            @ (if supported \<and> align_output then [Align]
                               else if supported \<and> \<not> align_output \<and> diarization then [Diarize]
                               else [])
                       \<and> segments out =
                            (if supported \<and> align_output
                             then result_segments (align env result)
                             else if supported \<and> \<not> align_output \<and> diarization
                             then result_segments (diarize env result)
                             else result_segments result))))
      \<and> (\<forall>e. language = None \<and> fst detected = Inl e
            \<longrightarrow> predict env audio_file language language_detection_min_prob
                    language_detection_max_tries align_output diarization w
                  = (Inl e, snd detected)
                \<and> stages_run (snd detected) = stages_run w)"
proof -
  let ?d = "get_audio_duration env audio_file"
  let ?n = "clamped_tries language_detection_max_tries ?d 30000"
  let ?plan = "distribute_segments_equally ?d 30000 ?n"
  let ?w1 = "print_line (Segments_line ?plan) w"
  let ?det = "detect_language env audio_file ?plan language_detection_min_prob ?n 1 ?w1"
  let ?sup = "\<lambda>l. result_language (transcribe env l) \<in> set (align_models_torch env)
                \<or> result_language (transcribe env l) \<in> set (align_models_hf env)"
  let ?good = "\<lambda>l out w'. detected_language out = result_language (transcribe env l)
      \<and> stages_run w' = stages_run w
           @ (if ?sup l \<and> align_output then [Align]
              else if ?sup l \<and> \<not> align_output \<and> diarization then [Diarize]
              else [])
      \<and> segments out =
           (if ?sup l \<and> align_output
            then result_segments (align env (transcribe env l))
            else if ?sup l \<and> \<not> align_output \<and> diarization
            then result_segments (diarize env (transcribe env l))
            else result_segments (transcribe env l))"
  from detect_language_effects [of env audio_file ?plan language_detection_min_prob ?n 1 ?w1]
  obtain r0 w2 where run: "?det = (r0, w2)" and st: "stages_run w2 = stages_run ?w1"
    by blast
  have pd: "predict env audio_file None language_detection_min_prob
      language_detection_max_tries align_output diarization w =
     (case ?det of
        (Inl e, w2) \<Rightarrow> (Inl e, w2)
      | (Inr d, w2) \<Rightarrow>
          predict env audio_file (Some (res_language d)) language_detection_min_prob
            language_detection_max_tries align_output diarization
            (print_line (Detected_line (res_language d) (res_probability d)
               (res_iterations d)) w2))"
    using predict_detecting [of env audio_file language_detection_min_prob
        language_detection_max_tries align_output diarization w]
    by (simp add: clamped_tries_div)
  have given: "\<exists>out w'. predict env audio_file (Some l) language_detection_min_prob
        language_detection_max_tries align_output diarization w0 = (Inr out, w')
      \<and> detected_language out = result_language (transcribe env l)
      \<and> stages_run w' = stages_run w0
           @ (if ?sup l \<and> align_output then [Align]
              else if ?sup l \<and> \<not> align_output \<and> diarization then [Diarize]
              else [])
      \<and> segments out =
           (if ?sup l \<and> align_output
            then result_segments (align env (transcribe env l))
            else if ?sup l \<and> \<not> align_output \<and> diarization
            then result_segments (diarize env (transcribe env l))
            else result_segments (transcribe env l))" for l w0
    using predict_resolved [of env audio_file l language_detection_min_prob
        language_detection_max_tries align_output diarization w0]
    by (elim exE conjE) simp
  have a: "\<exists>out w'. predict env audio_file language language_detection_min_prob
        language_detection_max_tries align_output diarization w = (Inr out, w')
      \<and> ?good l out w'"
    if "language = Some l \<or> (language = None \<and> (\<exists>d. fst ?det = Inr d \<and> res_language d = l))"
    for l
    using that
  proof
    assume "language = Some l"
    with given [of l w] show ?thesis by simp
  next
    assume "language = None \<and> (\<exists>d. fst ?det = Inr d \<and> res_language d = l)"
    then obtain d where none: "language = None" and d: "r0 = Inr d" "res_language d = l"
      using run by auto
    let ?w3 = "print_line (Detected_line (res_language d) (res_probability d)
        (res_iterations d)) w2"
    have eq: "predict env audio_file language language_detection_min_prob
        language_detection_max_tries align_output diarization w
        = predict env audio_file (Some l) language_detection_min_prob
            language_detection_max_tries align_output diarization ?w3"
      unfolding none pd run using d by simp
    have "stages_run ?w3 = stages_run w" using st by simp
    with given [of l ?w3] show ?thesis unfolding eq by simp
  qed
  have b: "predict env audio_file language language_detection_min_prob
        language_detection_max_tries align_output diarization w = (Inl e, snd ?det)
      \<and> stages_run (snd ?det) = stages_run w"
    if "language = None \<and> fst ?det = Inl e" for e
    using that run st by (simp add: pd)
  show ?thesis unfolding Let_def using a b by blast
qed


theorem align_and_diarize_exclusive_witness:
  "predict (sample_pipeline 100000) sample_audio (Some ''en'') 0 5 True True empty_world
     = (Inr \<lparr>segments = [''hello'', ''aligned''], detected_language = ''en''\<rparr>,
        empty_world\<lparr>model_loads := 1, stages_run := [Align]\<rparr>)
   \<and> fst (predict (sample_pipeline 100000) sample_audio (Some ''en'') 0 5 False True
          empty_world)
     = Inr \<lparr>segments = [''hello'', ''speakers''], detected_language = ''en''\<rparr>
   \<and> stages_run (snd (predict (sample_pipeline 100000) sample_audio (Some ''en'') 0 5 False True
          empty_world)) = [Diarize]
   \<and> fst (predict (sample_pipeline 100000) sample_audio (Some ''xx'') 0 5 True True
          empty_world)
     = Inr \<lparr>segments = [''hello''], detected_language = ''xx''\<rparr>
   \<and> stages_run (snd (predict (sample_pipeline 100000) sample_audio (Some ''xx'') 0 5 True True
          empty_world)) = []
   \<and> fst (predict (sample_pipeline 100000) sample_audio (Some ''en'') 0 5 False False
          empty_world)
     = Inr \<lparr>segments = [''hello''], detected_language = ''en''\<rparr>
   \<and> stages_run (snd (predict (sample_pipeline 100000) sample_audio (Some ''en'') 0 5 False False
          empty_world)) = []"
proof -
  let ?env = "sample_pipeline 100000"
  have sup: "l \<in> set (align_models_torch ?env) \<or> l \<in> set (align_models_hf ?env)
      \<longleftrightarrow> l \<in> {''en'', ''fr'', ''ja''}" for l
    by (auto simp: sample_pipeline_def)
  have run: "fst (predict ?env sample_audio (Some l) 0 5 al di empty_world)
        = Inr \<lparr>segments =
                 (if l \<in> {''en'', ''fr'', ''ja''} \<and> al then [''hello'', ''aligned'']
                  else if l \<in> {''en'', ''fr'', ''ja''} \<and> \<not> al \<and> di
                  then [''hello'', ''speakers''] else [''hello'']),
               detected_language = l\<rparr>
      \<and> stages_run (snd (predict ?env sample_audio (Some l) 0 5 al di empty_world))
        = (if l \<in> {''en'', ''fr'', ''ja''} \<and> al then [Align]
           else if l \<in> {''en'', ''fr'', ''ja''} \<and> \<not> al \<and> di then [Diarize] else [])"
    for l al di
  proof -
    note inst = align_and_diarize_exclusive [where env = ?env and audio_file = sample_audio
        and language = "Some l" and language_detection_min_prob = 0
        and language_detection_max_tries = 5 and align_output = al and diarization = di
        and w = empty_world, unfolded Let_def, THEN conjunct1, rule_format, of l]
    have "Some l = Some l \<or> (Some l = None \<and> (\<exists>d. fst (detect_language ?env sample_audio
        (distribute_segments_equally (get_audio_duration ?env sample_audio) 30000
          (clamped_tries 5 (get_audio_duration ?env sample_audio) 30000)) 0
        (clamped_tries 5 (get_audio_duration ?env sample_audio) 30000) 1
        (print_line (Segments_line (distribute_segments_equally
          (get_audio_duration ?env sample_audio) 30000
          (clamped_tries 5 (get_audio_duration ?env sample_audio) 30000))) empty_world))
        = Inr d \<and> res_language d = l))"
      by simp
    from inst [OF this]
    obtain out w' where p: "predict ?env sample_audio (Some l) 0 5 al di empty_world
        = (Inr out, w')"
      and dl: "detected_language out = result_language (transcribe ?env l)"
      and st: "stages_run w' = stages_run empty_world
          @ (if (result_language (transcribe ?env l) \<in> set (align_models_torch ?env)
                 \<or> result_language (transcribe ?env l) \<in> set (align_models_hf ?env)) \<and> al
             then [Align]
             else if (result_language (transcribe ?env l) \<in> set (align_models_torch ?env)
                      \<or> result_language (transcribe ?env l) \<in> set (align_models_hf ?env))
                     \<and> \<not> al \<and> di
             then [Diarize] else [])"
      and sg: "segments out =
            (if (result_language (transcribe ?env l) \<in> set (align_models_torch ?env)
                 \<or> result_language (transcribe ?env l) \<in> set (align_models_hf ?env)) \<and> al
             then result_segments (align ?env (transcribe ?env l))
             else if (result_language (transcribe ?env l) \<in> set (align_models_torch ?env)
                      \<or> result_language (transcribe ?env l) \<in> set (align_models_hf ?env))
                     \<and> \<not> al \<and> di
             then result_segments (diarize ?env (transcribe ?env l))
             else result_segments (transcribe ?env l))"
      by blast
    have tr: "result_language (transcribe ?env l) = l"
      "result_segments (transcribe ?env l) = [''hello'']"
      "result_segments (align ?env (transcribe ?env l)) = [''hello'', ''aligned'']"
      "result_segments (diarize ?env (transcribe ?env l)) = [''hello'', ''speakers'']"
      by (simp_all add: sample_pipeline_def)
    have out: "out = \<lparr>segments = segments out, detected_language = detected_language out\<rparr>"
      by simp
    have "fst (predict ?env sample_audio (Some l) 0 5 al di empty_world) = Inr out"
      using p by simp
    moreover have "stages_run (snd (predict ?env sample_audio (Some l) 0 5 al di empty_world))
        = stages_run w'" using p by simp
    ultimately show ?thesis
      using st sg dl unfolding tr sup
      by (subst (asm) out) (simp add: empty_world_def)
  qed
  have first: "predict ?env sample_audio (Some ''en'') 0 5 True True empty_world
     = (Inr \<lparr>segments = [''hello'', ''aligned''], detected_language = ''en''\<rparr>,
        empty_world\<lparr>model_loads := 1, stages_run := [Align]\<rparr>)"
    by (simp add: predict_def Let_def sample_pipeline_def empty_world_def)
  show ?thesis
    using first run [of "''en''" False True] run [of "''xx''" True True]
      run [of "''en''" False False]
    by simp
qed

text \<open>
  With \<^verbatim>\<open>language_detection_max_tries = -1\<close> and 1000 ms of audio the clamped try
  count is \<open>min (-1) 0 = -1\<close>, not 0.
\<close>

theorem negative_tries_not_clamped_to_zero:
  "clamped_tries (- 1) 1000 30000 = - 1 \<and> clamped_tries (- 1) 1000 30000 \<noteq> 0"
  by (simp add: clamped_tries_div)

text \<open>
  Claim C10, amended.  For a prediction without a language on audio shorter than
  30000 ms: the clamped try count is \<open>min language_detection_max_tries 0\<close>, which is
  0 when the requested tries are not negative; the planner returns the empty
  plan; the detector's first lookup \<^verbatim>\<open>segments_starts[iteration - 1]\<close> is out of
  range; and the prediction aborts with an error, which is \<^verbatim>\<open>IndexError\<close> when the
  detector's model load succeeds.
\<close>

theorem short_audio_aborts:
  assumes "0 \<le> get_audio_duration env audio_file"
    and "get_audio_duration env audio_file < 30000"
  shows "clamped_tries language_detection_max_tries (get_audio_duration env audio_file) 30000
           = min language_detection_max_tries 0
       \<and> (0 \<le> language_detection_max_tries \<longrightarrow>
            clamped_tries language_detection_max_tries (get_audio_duration env audio_file) 30000
              = 0)
       \<and> distribute_segments_equally (get_audio_duration env audio_file) 30000
           (clamped_tries language_detection_max_tries (get_audio_duration env audio_file) 30000)
           = []
       \<and> py_index (distribute_segments_equally (get_audio_duration env audio_file) 30000
           (clamped_tries language_detection_max_tries (get_audio_duration env audio_file)
              30000)) (1 - 1) = None
       \<and> (\<exists>e. fst (predict env audio_file None language_detection_min_prob
                  language_detection_max_tries align_output diarization w) = Inl e)
       \<and> (load_model_ok env 1 \<longrightarrow>
            fst (predict env audio_file None language_detection_min_prob
                  language_detection_max_tries align_output diarization w) = Inl IndexError)"
proof -
  let ?d = "get_audio_duration env audio_file"
  have dz: "?d div 30000 = 0" using assms by simp
  have ct: "clamped_tries language_detection_max_tries ?d 30000
      = min language_detection_max_tries 0"
    by (simp add: clamped_tries_div dz)
  have plan: "distribute_segments_equally ?d 30000 (min language_detection_max_tries 0) = []"
    by (rule distribute_nonpositive) simp
  let ?w1 = "print_line (Segments_line []) w"
  have det: "detect_language env audio_file [] language_detection_min_prob
      (min language_detection_max_tries 0) 1 ?w1
      = (if load_model_ok env 1 then Inl IndexError else Inl LoadModelError,
         ?w1\<lparr>model_loads := Suc (model_loads ?w1)\<rparr>)"
    by (subst detect_language_step) (simp add: py_index_def)
  have pr: "predict env audio_file None language_detection_min_prob
      language_detection_max_tries align_output diarization w
      = (if load_model_ok env 1 then Inl IndexError else Inl LoadModelError,
         ?w1\<lparr>model_loads := Suc (model_loads ?w1)\<rparr>)"
    by (simp add: predict_detecting dz plan det)
  show ?thesis
    unfolding ct plan pr by (simp add: py_index_def)
qed

theorem short_audio_aborts_witness:
  "(0::int) \<le> get_audio_duration (sample_pipeline 1000) sample_audio
   \<and> get_audio_duration (sample_pipeline 1000) sample_audio < 30000
   \<and> clamped_tries 5 (get_audio_duration (sample_pipeline 1000) sample_audio) 30000 = 0
   \<and> distribute_segments_equally (get_audio_duration (sample_pipeline 1000) sample_audio)
        30000 0 = []
   \<and> fst (predict (sample_pipeline 1000) sample_audio None 0 5 False False empty_world)
        = Inl IndexError"
proof -
  have h1: "(0::int) \<le> get_audio_duration (sample_pipeline 1000) sample_audio"
    and h2: "get_audio_duration (sample_pipeline 1000) sample_audio < 30000"
    by (simp_all add: get_audio_duration_def sample_pipeline_def)
  have h3: "(0::int) \<le> 5" by simp
  have h4: "load_model_ok (sample_pipeline 1000) 1" by (simp add: sample_pipeline_def)
  note inst = short_audio_aborts [OF h1 h2, of 5 0 False False empty_world]
  from inst have a: "clamped_tries 5 (get_audio_duration (sample_pipeline 1000) sample_audio)
      30000 = 0" using h3 by blast
  from inst have b: "distribute_segments_equally
      (get_audio_duration (sample_pipeline 1000) sample_audio) 30000
      (clamped_tries 5 (get_audio_duration (sample_pipeline 1000) sample_audio) 30000) = []"
    by blast
  from inst h4 have c: "fst (predict (sample_pipeline 1000) sample_audio None 0 5 False False
      empty_world) = Inl IndexError" by blast
  from h1 h2 a b [unfolded a] c show ?thesis by blast
qed

end
